theory Spec2Isabelle
  imports Complex_Main "HOL-Library.Char_ord" "HOL-Library.List_Lexorder"
    "HOL-Library.Product_Lexorder"
begin

section \<open>Dates\<close>

text \<open>
  The interface \<open>Loan\<close> keeps its three dates as ISO strings (\<open>loanDate: string; // ISO string\<close>),
  written by \<open>Date.toISOString\<close> and read back by \<open>parseISO\<close>. An ISO string is represented
  here by the instant it denotes, in milliseconds since the epoch, so \<open>toISOString\<close> and
  \<open>parseISO\<close> are both the identity.

  The date library works on the local clock, which is given by a zone: \<open>toLocal\<close> is the
  wall time of an instant (the number the local year, month, day and time of day stand for),
  and \<open>fromLocal\<close> is the instant that a setter of \<open>Date\<close> makes of a wall time. The functions
  below follow the library: \<open>addDays\<close> is \<open>setDate(getDate() + amount)\<close>, \<open>startOfDay\<close> is
  \<open>setHours(0, 0, 0, 0)\<close>, \<open>compareLocalAsc\<close> compares the local fields,
  \<open>differenceInCalendarDays\<close> rounds the distance of the two local midnights, and
  \<open>differenceInDays\<close> takes one day off the calendar days when the last day is not full.
  \<open>isAfter\<close> compares instants.
\<close>

type_synonym timestamp = int

definition msPerDay :: int where
  "msPerDay = 86400000"

record Zone =
  toLocal :: "timestamp \<Rightarrow> int"
  fromLocal :: "int \<Rightarrow> timestamp"

definition addDays :: "Zone \<Rightarrow> timestamp \<Rightarrow> int \<Rightarrow> timestamp" where
  "addDays z d amount =
     (if amount = 0 then d else fromLocal z (toLocal z d + amount * msPerDay))"

definition isAfter :: "timestamp \<Rightarrow> timestamp \<Rightarrow> bool" where
  "isAfter d dateToCompare = (dateToCompare < d)"

definition startOfDay :: "Zone \<Rightarrow> timestamp \<Rightarrow> timestamp" where
  "startOfDay z d = fromLocal z (toLocal z d - toLocal z d mod msPerDay)"

definition compareLocalAsc :: "Zone \<Rightarrow> timestamp \<Rightarrow> timestamp \<Rightarrow> int" where
  "compareLocalAsc z laterDate earlierDate = sgn (toLocal z laterDate - toLocal z earlierDate)"

text \<open>\<open>Math.round(x / d)\<close> for a positive \<open>d\<close>: the nearest integer, a half going up.\<close>

definition Math_round_div :: "int \<Rightarrow> int \<Rightarrow> int" where
  "Math_round_div x d = (2 * x + d) div (2 * d)"

definition differenceInCalendarDays :: "Zone \<Rightarrow> timestamp \<Rightarrow> timestamp \<Rightarrow> int" where
  "differenceInCalendarDays z laterDate earlierDate =
     Math_round_div
       (toLocal z (startOfDay z laterDate) - toLocal z (startOfDay z earlierDate)) msPerDay"

definition differenceInDays :: "Zone \<Rightarrow> timestamp \<Rightarrow> timestamp \<Rightarrow> int" where
  "differenceInDays z laterDate earlierDate =
     (let sign = compareLocalAsc z laterDate earlierDate;
          difference = \<bar>differenceInCalendarDays z laterDate earlierDate\<bar>;
          shifted = fromLocal z (toLocal z laterDate - sign * difference * msPerDay);
          isLastDayNotFull = (if compareLocalAsc z shifted earlierDate = - sign then 1 else 0)
      in sign * (difference - isLastDayNotFull))"

text \<open>
  A clock at a fixed offset from UTC, and the clock of London in the spring of 2024: UTC
  until 2024-03-31T01:00:00Z (1711846800000) and one hour ahead from then on; a wall time
  in the hour that is skipped is read with the offset before the change.
\<close>

definition fixedZone :: "int \<Rightarrow> Zone" where
  "fixedZone offset = \<lparr>toLocal = (\<lambda>t. t + offset), fromLocal = (\<lambda>l. l - offset)\<rparr>"

definition utc :: Zone where
  "utc = fixedZone 0"

definition london :: Zone where
  "london =
     \<lparr>toLocal = (\<lambda>t. if t < 1711846800000 then t else t + 3600000),
      fromLocal = (\<lambda>l. if l < 1711850400000 then l else l - 3600000)\<rparr>"

section \<open>Strings\<close>

text \<open>
  \<open>String.prototype.toLowerCase\<close> and \<open>trim\<close> belong to the runtime, and the application
  takes them from its environment (see \<open>Env\<close> below). On strings of characters below 256
  they are the two functions here: the letters A to Z and the capital letters of the
  range 192 to 222 (all but the sign 215) are lowered by 32; white space and line ends
  are the characters 9 to 13, 32 and 160.
\<close>

definition toLowerCase_char :: "char \<Rightarrow> char" where
  "toLowerCase_char c =
     (let n = (of_char c :: nat)
      in if (65 \<le> n \<and> n \<le> 90) \<or> (192 \<le> n \<and> n \<le> 222 \<and> n \<noteq> 215)
         then char_of (n + 32) else c)"

definition toLowerCase_latin1 :: "string \<Rightarrow> string" where
  "toLowerCase_latin1 s = map toLowerCase_char s"

definition isWhiteSpace :: "char \<Rightarrow> bool" where
  "isWhiteSpace c =
     (let n = (of_char c :: nat) in (9 \<le> n \<and> n \<le> 13) \<or> n = 32 \<or> n = 160)"

definition trim_latin1 :: "string \<Rightarrow> string" where
  "trim_latin1 s = rev (dropWhile isWhiteSpace (rev (dropWhile isWhiteSpace s)))"

section \<open>The entities (types.ts)\<close>

text \<open>
  \<open>BookData\<close> is \<open>Omit<Book, 'id'>\<close>, the object a form gives, and \<open>Book\<close> adds the id; the
  same for the students. An optional property is \<open>None\<close> when it is undefined or null.
\<close>

record BookData =
  bTitle :: string
  bAuthor :: string
  bYear :: int
  bPublisher :: string
  bIsbn :: string
  bBarcode :: "string option"
  bEditionYear :: int
  bLocation :: string
  bCollection :: "string option"

record Book = BookData +
  bId :: string

text \<open>
  \<open>bookId\<close> is a \<open>string\<close> in the interface; \<open>rowToLoan\<close> only casts the column, and the
  column can hold null, so the field is optional here (\<open>None\<close> is null).
\<close>

record Loan =
  lId :: string
  studentName :: string
  studentClass :: string
  bookId :: "string option"
  bookTitle :: string
  loanDate :: timestamp
  dueDate :: timestamp
  returnDate :: "timestamp option"

record StudentData =
  sName :: string
  sClass :: string

record Student = StudentData +
  sId :: string

record LibraryData =
  books :: "Book list"
  loans :: "Loan list"
  students :: "Student list"

section \<open>The remote store and its service (services/supabaseService.ts)\<close>

text \<open>
  The rows of the three tables, with the store's column names. \<open>BookRow\<close> and \<open>StudentRow\<close>
  are the objects the service sends, which have every column but the id.
\<close>

record BookRow =
  books_title :: string
  books_author :: string
  books_year :: int
  books_publisher :: string
  books_isbn :: string
  books_barcode :: "string option"
  books_edition_year :: int
  books_location :: string
  books_collection :: "string option"

record books_row = BookRow +
  books_id :: string

record StudentRow =
  students_name :: string
  students_class :: string

record students_row = StudentRow +
  students_id :: string

record loans_row =
  loans_id :: string
  loans_student_name :: string
  loans_student_class :: string
  loans_book_id :: "string option"
  loans_book_title :: string
  loans_loan_date :: timestamp
  loans_due_date :: timestamp
  loans_return_date :: "timestamp option"

record Remote =
  t_books :: "books_row list"
  t_students :: "students_row list"
  t_loans :: "loans_row list"

text \<open>
  A property of a \<open>Partial<Loan>\<close> is either left out (\<open>Undefined\<close>) or given. The nullable
  \<open>returnDate\<close> has three states: left out, null (\<open>Defined None\<close>) or a date.
\<close>

datatype 'a partial = Undefined | Defined 'a

record PartialLoan =
  p_studentName :: "string partial"
  p_studentClass :: "string partial"
  p_bookId :: "string partial"
  p_bookTitle :: "string partial"
  p_loanDate :: "timestamp partial"
  p_dueDate :: "timestamp partial"
  p_returnDate :: "timestamp option partial"

text \<open>
  The object \<open>loanToRow\<close> builds. \<open>student_name\<close>, \<open>student_class\<close>, \<open>book_title\<close>,
  \<open>loan_date\<close> and \<open>due_date\<close> copy the property and stay \<open>Undefined\<close> when it is left out;
  \<open>book_id\<close> and \<open>return_date\<close> go through \<open>?? null\<close> and are never undefined: \<open>None\<close> is null.
\<close>

record LoanRow =
  student_name :: "string partial"
  student_class :: "string partial"
  book_id :: "string option"
  book_title :: "string partial"
  loan_date :: "timestamp partial"
  due_date :: "timestamp partial"
  return_date :: "timestamp option"

definition rowToBook :: "books_row \<Rightarrow> Book" where
  "rowToBook row =
     \<lparr>bTitle = books_title row, bAuthor = books_author row, bYear = books_year row,
      bPublisher = books_publisher row, bIsbn = books_isbn row, bBarcode = books_barcode row,
      bEditionYear = books_edition_year row, bLocation = books_location row,
      bCollection = books_collection row, bId = books_id row\<rparr>"

text \<open>
  \<open>bookToRow\<close> is declared on a \<open>Partial<Book>\<close>; both calls of the application pass it the
  whole of \<open>bookData\<close>, on which it renames the properties and turns a missing barcode or
  collection into null.
\<close>

definition bookToRow :: "BookData \<Rightarrow> BookRow" where
  "bookToRow book =
     \<lparr>books_title = bTitle book, books_author = bAuthor book, books_year = bYear book,
      books_publisher = bPublisher book, books_isbn = bIsbn book,
      books_barcode = bBarcode book, books_edition_year = bEditionYear book,
      books_location = bLocation book, books_collection = bCollection book\<rparr>"

definition rowToStudent :: "students_row \<Rightarrow> Student" where
  "rowToStudent row =
     \<lparr>sName = students_name row, sClass = students_class row, sId = students_id row\<rparr>"

definition rowToLoan :: "loans_row \<Rightarrow> Loan" where
  "rowToLoan row =
     \<lparr>lId = loans_id row, studentName = loans_student_name row,
      studentClass = loans_student_class row, bookId = loans_book_id row,
      bookTitle = loans_book_title row, loanDate = loans_loan_date row,
      dueDate = loans_due_date row, returnDate = loans_return_date row\<rparr>"

definition loanToRow :: "PartialLoan \<Rightarrow> LoanRow" where
  "loanToRow loan =
     \<lparr>student_name = p_studentName loan,
      student_class = p_studentClass loan,
      book_id = (case p_bookId loan of Undefined \<Rightarrow> None | Defined b \<Rightarrow> Some b),
      book_title = p_bookTitle loan,
      loan_date = p_loanDate loan,
      due_date = p_dueDate loan,
      return_date = (case p_returnDate loan of Undefined \<Rightarrow> None | Defined r \<Rightarrow> r)\<rparr>"

text \<open>
  The store itself is outside the repository. A request either fails as a whole, and the
  service function throws the store's error, or it is applied as follows. The client sends
  the row as a JSON body, which drops the undefined properties, so an update assigns the
  columns that are given (null included) and keeps the others; an insert needs every column
  without a default (all but \<open>id\<close>, \<open>book_id\<close> and \<open>return_date\<close>) and takes the new \<open>id\<close>
  from the store; a delete removes the rows with the id. A select returns the rows in the
  order asked for, with the order on strings standing for the store's collation.

  The environment of an action is what the code takes from outside: the clock and its
  zone, the two string functions of the runtime, which requests fail, and the identifiers
  the store generates.
\<close>

datatype PostgrestError = PostgrestError

datatype Request =
    FetchBooks | InsertBook | UpdateBook | DeleteBook
  | FetchStudents | InsertStudent | UpdateStudent | DeleteStudent
  | FetchLoans | InsertLoan | UpdateLoan | DeleteLoan

record Env =
  now :: timestamp
  zone :: Zone
  toLowerCase :: "string \<Rightarrow> string"
  trim :: "string \<Rightarrow> string"
  fails :: "Request \<Rightarrow> bool"
  newBookId :: string
  newStudentId :: string
  newLoanId :: string

definition stored_book :: "string \<Rightarrow> BookRow \<Rightarrow> books_row" where
  "stored_book ident row =
     \<lparr>books_title = books_title row, books_author = books_author row,
      books_year = books_year row, books_publisher = books_publisher row,
      books_isbn = books_isbn row, books_barcode = books_barcode row,
      books_edition_year = books_edition_year row, books_location = books_location row,
      books_collection = books_collection row, books_id = ident\<rparr>"

definition assign :: "'a partial \<Rightarrow> 'a \<Rightarrow> 'a" where
  "assign given old = (case given of Undefined \<Rightarrow> old | Defined v \<Rightarrow> v)"

definition update_loans_row :: "LoanRow \<Rightarrow> loans_row \<Rightarrow> loans_row" where
  "update_loans_row row stored =
     stored\<lparr>loans_student_name := assign (student_name row) (loans_student_name stored),
            loans_student_class := assign (student_class row) (loans_student_class stored),
            loans_book_id := book_id row,
            loans_book_title := assign (book_title row) (loans_book_title stored),
            loans_loan_date := assign (loan_date row) (loans_loan_date stored),
            loans_due_date := assign (due_date row) (loans_due_date stored),
            loans_return_date := return_date row\<rparr>"

definition insert_loans_row :: "string \<Rightarrow> LoanRow \<Rightarrow> loans_row option" where
  "insert_loans_row new_id row =
     (case (student_name row, student_class row, book_title row, loan_date row, due_date row) of
        (Defined n, Defined c, Defined t, Defined l, Defined d) \<Rightarrow>
          Some \<lparr>loans_id = new_id, loans_student_name = n, loans_student_class = c,
                loans_book_id = book_id row, loans_book_title = t, loans_loan_date = l,
                loans_due_date = d, loans_return_date = return_date row\<rparr>
      | _ \<Rightarrow> None)"

definition fetchBooks :: "Env \<Rightarrow> Remote \<Rightarrow> PostgrestError + Book list" where
  "fetchBooks env db =
     (if fails env FetchBooks then Inl PostgrestError
      else Inr (map rowToBook (sort_key books_title (t_books db))))"

definition insertBook :: "Env \<Rightarrow> BookData \<Rightarrow> Remote \<Rightarrow> PostgrestError + (Book \<times> Remote)" where
  "insertBook env book db =
     (if fails env InsertBook then Inl PostgrestError
      else let row = stored_book (newBookId env) (bookToRow book)
           in Inr (rowToBook row, db\<lparr>t_books := t_books db @ [row]\<rparr>))"

definition updateBook :: "Env \<Rightarrow> string \<Rightarrow> BookData \<Rightarrow> Remote \<Rightarrow> PostgrestError + Remote" where
  "updateBook env ident book db =
     (if fails env UpdateBook then Inl PostgrestError
      else Inr (db\<lparr>t_books :=
                  map (\<lambda>r. if books_id r = ident then stored_book ident (bookToRow book) else r)
                    (t_books db)\<rparr>))"

definition deleteBook :: "Env \<Rightarrow> string \<Rightarrow> Remote \<Rightarrow> PostgrestError + Remote" where
  "deleteBook env ident db =
     (if fails env DeleteBook then Inl PostgrestError
      else Inr (db\<lparr>t_books := filter (\<lambda>r. books_id r \<noteq> ident) (t_books db)\<rparr>))"

definition fetchStudents :: "Env \<Rightarrow> Remote \<Rightarrow> PostgrestError + Student list" where
  "fetchStudents env db =
     (if fails env FetchStudents then Inl PostgrestError
      else Inr (map rowToStudent
             (sort_key (\<lambda>r. (students_class r, students_name r)) (t_students db))))"

definition insertStudent ::
  "Env \<Rightarrow> StudentData \<Rightarrow> Remote \<Rightarrow> PostgrestError + (Student \<times> Remote)" where
  "insertStudent env student db =
     (if fails env InsertStudent then Inl PostgrestError
      else let row = \<lparr>students_name = sName student, students_class = sClass student,
                       students_id = newStudentId env\<rparr>
           in Inr (rowToStudent row, db\<lparr>t_students := t_students db @ [row]\<rparr>))"

definition updateStudent ::
  "Env \<Rightarrow> string \<Rightarrow> StudentData \<Rightarrow> Remote \<Rightarrow> PostgrestError + Remote" where
  "updateStudent env ident student db =
     (if fails env UpdateStudent then Inl PostgrestError
      else Inr (db\<lparr>t_students :=
                  map (\<lambda>r. if students_id r = ident
                           then r\<lparr>students_name := sName student,
                                  students_class := sClass student\<rparr>
                           else r)
                    (t_students db)\<rparr>))"

definition deleteStudent :: "Env \<Rightarrow> string \<Rightarrow> Remote \<Rightarrow> PostgrestError + Remote" where
  "deleteStudent env ident db =
     (if fails env DeleteStudent then Inl PostgrestError
      else Inr (db\<lparr>t_students := filter (\<lambda>r. students_id r \<noteq> ident) (t_students db)\<rparr>))"

definition fetchLoans :: "Env \<Rightarrow> Remote \<Rightarrow> PostgrestError + Loan list" where
  "fetchLoans env db =
     (if fails env FetchLoans then Inl PostgrestError
      else Inr (map rowToLoan (rev (sort_key loans_loan_date (t_loans db)))))"

definition insertLoan :: "Env \<Rightarrow> PartialLoan \<Rightarrow> Remote \<Rightarrow> PostgrestError + (Loan \<times> Remote)" where
  "insertLoan env loan db =
     (if fails env InsertLoan then Inl PostgrestError
      else case insert_loans_row (newLoanId env) (loanToRow loan) of
             None \<Rightarrow> Inl PostgrestError
           | Some row \<Rightarrow> Inr (rowToLoan row, db\<lparr>t_loans := t_loans db @ [row]\<rparr>))"

definition updateLoan :: "Env \<Rightarrow> string \<Rightarrow> PartialLoan \<Rightarrow> Remote \<Rightarrow> PostgrestError + Remote" where
  "updateLoan env ident loan db =
     (if fails env UpdateLoan then Inl PostgrestError
      else Inr (db\<lparr>t_loans :=
                  map (\<lambda>r. if loans_id r = ident then update_loans_row (loanToRow loan) r else r)
                    (t_loans db)\<rparr>))"

definition deleteLoan :: "Env \<Rightarrow> string \<Rightarrow> Remote \<Rightarrow> PostgrestError + Remote" where
  "deleteLoan env ident db =
     (if fails env DeleteLoan then Inl PostgrestError
      else Inr (db\<lparr>t_loans := filter (\<lambda>r. loans_id r \<noteq> ident) (t_loans db)\<rparr>))"

section \<open>The application (App.tsx)\<close>

text \<open>
  The state of the component that the actions read and write, and the messages they
  show. A toast is kept by its template and the values filled in; \<open>toastType\<close> is the
  type the call passes. \<open>showToast\<close> appends a toast; the timer that takes it away later
  is left out.
\<close>

datatype ToastType = Success | Failure | Info

datatype DeleteType = DeleteTypeBook | DeleteTypeStudent | DeleteTypeLoan

datatype Toast =
    BookUpdated
  | BookRegistered
  | BookSaveError
  | StudentUpdated
  | StudentRegistered
  | StudentSaveError
  | StudentAutoRegistered string
  | LoanUpdated
  | LoanRegistered string
  | LoanSaveError
  | ReturnRegistered
  | ReturnError
  | Deleted DeleteType
  | DeleteError

fun toastType :: "Toast \<Rightarrow> ToastType" where
  "toastType BookUpdated = Success"
| "toastType BookRegistered = Success"
| "toastType BookSaveError = Failure"
| "toastType StudentUpdated = Success"
| "toastType StudentRegistered = Success"
| "toastType StudentSaveError = Failure"
| "toastType (StudentAutoRegistered n) = Info"
| "toastType LoanUpdated = Success"
| "toastType (LoanRegistered t) = Success"
| "toastType LoanSaveError = Failure"
| "toastType ReturnRegistered = Success"
| "toastType ReturnError = Failure"
| "toastType (Deleted t) = Info"
| "toastType DeleteError = Failure"

record ConfirmDelete =
  cd_type :: DeleteType
  cd_id :: string
  cd_message :: string

record App =
  data :: LibraryData
  dataLoading :: bool
  showBookForm :: bool
  editingBook :: "Book option"
  showStudentForm :: bool
  editingStudent :: "Student option"
  showLoanForm :: bool
  editingLoan :: "Loan option"
  selectedStudentId :: string
  confirmDelete :: "ConfirmDelete option"
  toasts :: "Toast list"

record World =
  app :: App
  remote :: Remote

record LoanForm =
  f_bookId :: string
  f_studentName :: string
  f_studentClass :: string

text \<open>
  How a run of \<open>handleSaveLoan\<close> ends: at the \<open>return\<close> of its guard, in its \<open>catch\<close>, or
  past the \<open>try\<close> block.
\<close>

datatype Outcome = EarlyReturn | Caught | Completed

definition showToast :: "Toast \<Rightarrow> World \<Rightarrow> World" where
  "showToast t w = w\<lparr>app := (app w)\<lparr>toasts := toasts (app w) @ [t]\<rparr>\<rparr>"

definition loadAllData :: "Env \<Rightarrow> World \<Rightarrow> World" where
  "loadAllData env w =
     (case (fetchBooks env (remote w), fetchStudents env (remote w), fetchLoans env (remote w)) of
        (Inr bs, Inr ss, Inr ls) \<Rightarrow>
          w\<lparr>app := (app w)\<lparr>data := \<lparr>books = bs, loans = ls, students = ss\<rparr>,
                            dataLoading := False\<rparr>\<rparr>
      | _ \<Rightarrow> w\<lparr>app := (app w)\<lparr>dataLoading := False\<rparr>\<rparr>)"

text \<open>
  \<open>handleSaveBook\<close> and \<open>handleSaveStudent\<close>, from the object that the handler reads off its
  form (\<open>bookData\<close>, \<open>studentData\<close>).
\<close>

definition closeBookForm :: "World \<Rightarrow> World" where
  "closeBookForm w = w\<lparr>app := (app w)\<lparr>showBookForm := False, editingBook := None\<rparr>\<rparr>"

definition handleSaveBook :: "Env \<Rightarrow> BookData \<Rightarrow> World \<Rightarrow> World" where
  "handleSaveBook env bookData w =
     closeBookForm
       (case editingBook (app w) of
          Some editing \<Rightarrow>
            (case updateBook env (bId editing) bookData (remote w) of
               Inl e \<Rightarrow> showToast BookSaveError w
             | Inr db \<Rightarrow> loadAllData env (showToast BookUpdated (w\<lparr>remote := db\<rparr>)))
        | None \<Rightarrow>
            (case insertBook env bookData (remote w) of
               Inl e \<Rightarrow> showToast BookSaveError w
             | Inr (created, db) \<Rightarrow>
                 loadAllData env (showToast BookRegistered (w\<lparr>remote := db\<rparr>))))"

definition closeStudentForm :: "World \<Rightarrow> World" where
  "closeStudentForm w =
     w\<lparr>app := (app w)\<lparr>showStudentForm := False, editingStudent := None\<rparr>\<rparr>"

definition handleSaveStudent :: "Env \<Rightarrow> StudentData \<Rightarrow> World \<Rightarrow> World" where
  "handleSaveStudent env studentData w =
     closeStudentForm
       (case editingStudent (app w) of
          Some editing \<Rightarrow>
            (case updateStudent env (sId editing) studentData (remote w) of
               Inl e \<Rightarrow> showToast StudentSaveError w
             | Inr db \<Rightarrow> loadAllData env (showToast StudentUpdated (w\<lparr>remote := db\<rparr>)))
        | None \<Rightarrow>
            (case insertStudent env studentData (remote w) of
               Inl e \<Rightarrow> showToast StudentSaveError w
             | Inr (created, db) \<Rightarrow>
                 loadAllData env (showToast StudentRegistered (w\<lparr>remote := db\<rparr>))))"

text \<open>The block of \<open>handleSaveLoan\<close> under the comment "Auto-create student if needed".\<close>

definition autoCreateStudent ::
  "Env \<Rightarrow> string \<Rightarrow> string \<Rightarrow> World \<Rightarrow> (PostgrestError + Student) \<times> World" where
  "autoCreateStudent env name cls w =
     (case find (\<lambda>s. toLowerCase env (sName s) = toLowerCase env name \<and>
                      toLowerCase env (sClass s) = toLowerCase env cls)
             (students (data (app w))) of
        Some student \<Rightarrow> (Inr student, w)
      | None \<Rightarrow>
          (case insertStudent env \<lparr>sName = name, sClass = cls\<rparr> (remote w) of
             Inl e \<Rightarrow> (Inl e, w)
           | Inr (student, db) \<Rightarrow>
               (Inr student, showToast (StudentAutoRegistered name) (w\<lparr>remote := db\<rparr>))))"

text \<open>The \<open>try\<close> block of \<open>handleSaveLoan\<close>: the effects made before a throw stay.\<close>

definition handleSaveLoan_try ::
  "Env \<Rightarrow> Book \<Rightarrow> string \<Rightarrow> string \<Rightarrow> World \<Rightarrow> (PostgrestError + unit) \<times> World" where
  "handleSaveLoan_try env book name cls w =
     (case autoCreateStudent env name cls w of
        (Inl e, w1) \<Rightarrow> (Inl e, w1)
      | (Inr student, w1) \<Rightarrow>
          (case editingLoan (app w1) of
             Some editing \<Rightarrow>
               (case updateLoan env (lId editing)
                       \<lparr>p_studentName = Defined (sName student),
                        p_studentClass = Defined (sClass student),
                        p_bookId = Defined (bId book), p_bookTitle = Defined (bTitle book),
                        p_loanDate = Undefined, p_dueDate = Undefined,
                        p_returnDate = Undefined\<rparr> (remote w1) of
                  Inl e \<Rightarrow> (Inl e, w1)
                | Inr db \<Rightarrow>
                    (Inr (), loadAllData env (showToast LoanUpdated (w1\<lparr>remote := db\<rparr>))))
           | None \<Rightarrow>
               (let loan_date = now env; due_date = addDays (zone env) loan_date 7 in
                case insertLoan env
                       \<lparr>p_studentName = Defined (sName student),
                        p_studentClass = Defined (sClass student),
                        p_bookId = Defined (bId book), p_bookTitle = Defined (bTitle book),
                        p_loanDate = Defined loan_date, p_dueDate = Defined due_date,
                        p_returnDate = Defined None\<rparr> (remote w1) of
                  Inl e \<Rightarrow> (Inl e, w1)
                | Inr (created, db) \<Rightarrow>
                    (Inr (), loadAllData env
                       (showToast (LoanRegistered (bTitle book)) (w1\<lparr>remote := db\<rparr>))))))"

definition closeLoanForm :: "World \<Rightarrow> World" where
  "closeLoanForm w =
     w\<lparr>app := (app w)\<lparr>showLoanForm := False, editingLoan := None, selectedStudentId := []\<rparr>\<rparr>"

definition handleSaveLoan :: "Env \<Rightarrow> LoanForm \<Rightarrow> World \<Rightarrow> Outcome \<times> World" where
  "handleSaveLoan env form w =
     (let name = trim env (f_studentName form); cls = trim env (f_studentClass form) in
      case find (\<lambda>b. bId b = f_bookId form) (books (data (app w))) of
        None \<Rightarrow> (EarlyReturn, w)
      | Some book \<Rightarrow>
          if name = [] \<or> cls = [] then (EarlyReturn, w)
          else (case handleSaveLoan_try env book name cls w of
                  (Inl e, w1) \<Rightarrow> (Caught, closeLoanForm (showToast LoanSaveError w1))
                | (Inr u, w1) \<Rightarrow> (Completed, closeLoanForm w1)))"

definition handleReturnBook :: "Env \<Rightarrow> string \<Rightarrow> World \<Rightarrow> World" where
  "handleReturnBook env loanId w =
     (case updateLoan env loanId
             \<lparr>p_studentName = Undefined, p_studentClass = Undefined, p_bookId = Undefined,
              p_bookTitle = Undefined, p_loanDate = Undefined, p_dueDate = Undefined,
              p_returnDate = Defined (Some (now env))\<rparr> (remote w) of
        Inl e \<Rightarrow> showToast ReturnError w
      | Inr db \<Rightarrow> showToast ReturnRegistered (loadAllData env (w\<lparr>remote := db\<rparr>)))"

text \<open>\<open>executeDelete\<close>: the delete that the confirmation dialog holds.\<close>

definition deleteRequest :: "DeleteType \<Rightarrow> Request" where
  "deleteRequest t =
     (case t of DeleteTypeBook \<Rightarrow> DeleteBook | DeleteTypeStudent \<Rightarrow> DeleteStudent
      | DeleteTypeLoan \<Rightarrow> DeleteLoan)"

definition executeDelete :: "Env \<Rightarrow> World \<Rightarrow> World" where
  "executeDelete env w =
     (case confirmDelete (app w) of
        None \<Rightarrow> w
      | Some cd \<Rightarrow>
          (let w1 =
             (case (case cd_type cd of
                      DeleteTypeBook \<Rightarrow> deleteBook env (cd_id cd) (remote w)
                    | DeleteTypeStudent \<Rightarrow> deleteStudent env (cd_id cd) (remote w)
                    | DeleteTypeLoan \<Rightarrow> deleteLoan env (cd_id cd) (remote w)) of
                Inl e \<Rightarrow> showToast DeleteError w
              | Inr db \<Rightarrow> showToast (Deleted (cd_type cd)) (loadAllData env (w\<lparr>remote := db\<rparr>)))
           in w1\<lparr>app := (app w1)\<lparr>confirmDelete := None\<rparr>\<rparr>))"

text \<open>
  \<open>LoanStatusBadge\<close>: what the badge shows at the instant \<open>current\<close>. A return date is an
  ISO string, which is truthy, so \<open>if (loan.returnDate)\<close> tests for null. The line with the
  days of delay is rendered under \<open>showOverdueDays\<close> only.
\<close>

datatype Badge = Devolvido | Atrasado "int option" | EmAberto

definition LoanStatusBadge :: "Zone \<Rightarrow> timestamp \<Rightarrow> Loan \<Rightarrow> bool \<Rightarrow> Badge" where
  "LoanStatusBadge z current loan showOverdueDays =
     (if returnDate loan \<noteq> None then Devolvido
      else let overdue = isAfter current (dueDate loan);
               days = differenceInDays z current (dueDate loan)
           in if overdue then Atrasado (if showOverdueDays then Some days else None)
              else EmAberto)"

text \<open>
  The effect "Check for upcoming due dates". A notification is kept by the loan's id and
  the three values its message is built from; its type is always the warning.
\<close>

record Notification =
  n_id :: string
  n_bookTitle :: string
  n_studentName :: string
  n_dueDate :: timestamp

definition upcoming :: "Zone \<Rightarrow> timestamp \<Rightarrow> Loan list \<Rightarrow> Notification list" where
  "upcoming z current ls =
     (let today = startOfDay z current in
      map (\<lambda>l. \<lparr>n_id = lId l, n_bookTitle = bookTitle l, n_studentName = studentName l,
                n_dueDate = dueDate l\<rparr>)
        (filter (\<lambda>l. let diff = differenceInDays z (dueDate l) today in 0 \<le> diff \<and> diff \<le> 2)
           (filter (\<lambda>l. returnDate l = None) ls)))"

section \<open>JSON values\<close>

text \<open>
  The backup and the local storage handle the whole snapshot as one untyped value: they read
  no property but \<open>books\<close>, \<open>loans\<close> and \<open>students\<close>, and the type \<open>LibraryData\<close> is only
  asserted of what \<open>JSON.parse\<close> returns. A \<open>json\<close> is a document; a \<open>jsval\<close> is a value
  at run time, which can also be undefined. An object is the list of its properties in
  insertion order.

  A text is represented by what \<open>JSON.parse\<close> makes of it: the empty string (the one string
  that is falsy), a text the parser rejects, or a document. \<open>JSON.stringify\<close> leaves out the
  properties that are undefined, writes null for an undefined element of an array, and
  returns undefined for undefined itself; a \<open>Blob\<close> built from that is the text "undefined",
  which does not parse.
\<close>

datatype json =
    JNull
  | JBool bool
  | JNum rat
  | JStr string
  | JArr "json list"
  | JObj "(string \<times> json) list"

datatype jsval =
    VUndefined
  | VNull
  | VBool bool
  | VNum rat
  | VStr string
  | VArr "jsval list"
  | VObj "(string \<times> jsval) list"

datatype jsontext = EmptyText | Malformed | Wellformed json

fun of_json :: "json \<Rightarrow> jsval" where
  "of_json JNull = VNull"
| "of_json (JBool b) = VBool b"
| "of_json (JNum n) = VNum n"
| "of_json (JStr s) = VStr s"
| "of_json (JArr xs) = VArr (map of_json xs)"
| "of_json (JObj ps) = VObj (map (\<lambda>(k, v). (k, of_json v)) ps)"

fun stringify :: "jsval \<Rightarrow> json option" where
  "stringify VUndefined = None"
| "stringify VNull = Some JNull"
| "stringify (VBool b) = Some (JBool b)"
| "stringify (VNum n) = Some (JNum n)"
| "stringify (VStr s) = Some (JStr s)"
| "stringify (VArr xs) =
     Some (JArr (map (\<lambda>x. case stringify x of None \<Rightarrow> JNull | Some j \<Rightarrow> j) xs))"
| "stringify (VObj ps) =
     Some (JObj (concat (map (\<lambda>(k, v). case stringify v of None \<Rightarrow> [] | Some j \<Rightarrow> [(k, j)]) ps)))"

definition JSON_stringify :: "jsval \<Rightarrow> jsontext" where
  "JSON_stringify v = (case stringify v of None \<Rightarrow> Malformed | Some j \<Rightarrow> Wellformed j)"

text \<open>\<open>JSON.parse\<close>: \<open>None\<close> is the SyntaxError it throws.\<close>

fun JSON_parse :: "jsontext \<Rightarrow> jsval option" where
  "JSON_parse EmptyText = None"
| "JSON_parse Malformed = None"
| "JSON_parse (Wellformed j) = Some (of_json j)"

fun truthy :: "jsval \<Rightarrow> bool" where
  "truthy VUndefined = False"
| "truthy VNull = False"
| "truthy (VBool b) = b"
| "truthy (VNum n) = (n \<noteq> 0)"
| "truthy (VStr s) = (s \<noteq> [])"
| "truthy (VArr xs) = True"
| "truthy (VObj ps) = True"

text \<open>
  Reading one of the three collection properties: \<open>None\<close> is the TypeError of reading a
  property of null or undefined; a primitive or an array has none of the three; an object
  gives undefined for a property it lacks.
\<close>

fun getProp :: "jsval \<Rightarrow> string \<Rightarrow> jsval option" where
  "getProp VUndefined k = None"
| "getProp VNull k = None"
| "getProp (VObj ps) k = Some (case map_of ps k of None \<Rightarrow> VUndefined | Some v \<Rightarrow> v)"
| "getProp v k = Some VUndefined"

text \<open>The operator \<open>||\<close>.\<close>

definition or_else :: "jsval \<Rightarrow> jsval \<Rightarrow> jsval" where
  "or_else a b = (if truthy a then a else b)"

text \<open>
  A value of JSON data: no element and no property of it, at any depth, is undefined.
\<close>

fun plain :: "jsval \<Rightarrow> bool" where
  "plain VUndefined = False"
| "plain (VArr xs) = list_all plain xs"
| "plain (VObj ps) = list_all (\<lambda>(k, v). plain v) ps"
| "plain v = True"

text \<open>
  The snapshot that the application holds, as a value: the objects that \<open>rowToBook\<close>,
  \<open>rowToStudent\<close> and \<open>rowToLoan\<close> build, in the order in which \<open>loadAllData\<close> puts the three
  collections. A date is the ISO string of its instant, for which \<open>toISOString\<close> stands; a column
  that is null stays null.
\<close>

definition nullable :: "('a \<Rightarrow> jsval) \<Rightarrow> 'a option \<Rightarrow> jsval" where
  "nullable f x = (case x of None \<Rightarrow> VNull | Some v \<Rightarrow> f v)"

definition book_value :: "Book \<Rightarrow> jsval" where
  "book_value b =
     VObj [(''id'', VStr (bId b)), (''title'', VStr (bTitle b)), (''author'', VStr (bAuthor b)),
           (''year'', VNum (of_int (bYear b))), (''publisher'', VStr (bPublisher b)),
           (''isbn'', VStr (bIsbn b)), (''barcode'', nullable VStr (bBarcode b)),
           (''editionYear'', VNum (of_int (bEditionYear b))),
           (''location'', VStr (bLocation b)), (''collection'', nullable VStr (bCollection b))]"

definition student_value :: "Student \<Rightarrow> jsval" where
  "student_value s =
     VObj [(''id'', VStr (sId s)), (''name'', VStr (sName s)), (''class'', VStr (sClass s))]"

definition loan_value :: "(timestamp \<Rightarrow> string) \<Rightarrow> Loan \<Rightarrow> jsval" where
  "loan_value toISOString l =
     VObj [(''id'', VStr (lId l)), (''studentName'', VStr (studentName l)),
           (''studentClass'', VStr (studentClass l)), (''bookId'', nullable VStr (bookId l)),
           (''bookTitle'', VStr (bookTitle l)), (''loanDate'', VStr (toISOString (loanDate l))),
           (''dueDate'', VStr (toISOString (dueDate l))),
           (''returnDate'', nullable (\<lambda>t. VStr (toISOString t)) (returnDate l))]"

definition data_value :: "(timestamp \<Rightarrow> string) \<Rightarrow> LibraryData \<Rightarrow> jsval" where
  "data_value toISOString d =
     VObj [(''books'', VArr (map book_value (books d))),
           (''students'', VArr (map student_value (students d))),
           (''loans'', VArr (map (loan_value toISOString) (loans d)))]"

section \<open>Local storage and backup files (services/storageService.ts)\<close>

definition emptyData :: jsval where
  "emptyData = VObj [(''books'', VArr []), (''loans'', VArr []), (''students'', VArr [])]"

definition saveData :: "jsval \<Rightarrow> jsontext option" where
  "saveData d = Some (JSON_stringify d)"

text \<open>The \<open>try\<close> block of \<open>loadData\<close>: \<open>None\<close> is a throw, which the \<open>catch\<close> only logs.\<close>

definition loadData_try :: "jsontext \<Rightarrow> jsval option" where
  "loadData_try saved =
     (case JSON_parse saved of
        None \<Rightarrow> None
      | Some d \<Rightarrow>
          (case (getProp d ''books'', getProp d ''loans'', getProp d ''students'') of
             (Some b, Some l, Some s) \<Rightarrow>
               Some (VObj [(''books'', or_else b (VArr [])), (''loans'', or_else l (VArr [])),
                           (''students'', or_else s (VArr []))])
           | _ \<Rightarrow> None))"

text \<open>\<open>loadData\<close>, from what \<open>localStorage.getItem\<close> returns (\<open>None\<close> is null).\<close>

definition loadData :: "jsontext option \<Rightarrow> jsval" where
  "loadData saved =
     (case saved of
        None \<Rightarrow> emptyData
      | Some text \<Rightarrow>
          if text = EmptyText then emptyData
          else (case loadData_try text of None \<Rightarrow> emptyData | Some d \<Rightarrow> d))"

text \<open>A file the user picks: the reader fails on it, or it has a text.\<close>

datatype File = Unreadable | Readable jsontext

definition exportBackup :: "jsval \<Rightarrow> File" where
  "exportBackup d = Readable (JSON_stringify d)"

datatype BackupError = InvalidFormat | ReadError | LoadError

definition importBackup :: "File \<Rightarrow> BackupError + jsval" where
  "importBackup f =
     (case f of
        Unreadable \<Rightarrow> Inl LoadError
      | Readable text \<Rightarrow>
          (case JSON_parse text of
             None \<Rightarrow> Inl ReadError
           | Some d \<Rightarrow>
               (case (getProp d ''books'', getProp d ''loans'', getProp d ''students'') of
                  (Some b, Some l, Some s) \<Rightarrow>
                    if truthy b \<and> truthy l
                    then Inr (VObj [(''books'', b), (''loans'', l),
                                    (''students'', or_else s (VArr []))])
                    else Inl InvalidFormat
                | _ \<Rightarrow> Inl ReadError)))"

section \<open>Export and import in the application\<close>

text \<open>
  What an import tells the user: the message of a backup error, of the parser's
  SyntaxError, or of a failed read of the file.
\<close>

datatype Alert = BackupAlert BackupError | SyntaxAlert | FileAlert

text \<open>
  \<open>handleExport\<close> and \<open>handleImport\<close> of App.tsx. The import takes the file chosen (if any),
  the user's answer to the confirmation and the snapshot in memory, and gives the snapshot
  afterwards and the alert shown.
\<close>

definition handleExport :: "jsval \<Rightarrow> File" where
  "handleExport d = Readable (JSON_stringify d)"

definition handleImport :: "File option \<Rightarrow> bool \<Rightarrow> jsval \<Rightarrow> jsval \<times> Alert option" where
  "handleImport chosen confirmed d =
     (case chosen of
        None \<Rightarrow> (d, None)
      | Some Unreadable \<Rightarrow> (d, Some FileAlert)
      | Some (Readable text) \<Rightarrow>
          (case JSON_parse text of
             None \<Rightarrow> (d, Some SyntaxAlert)
           | Some importedData \<Rightarrow> (if confirmed then importedData else d, None)))"

text \<open>
  The same two handlers in the revision of the application that keeps its data in local
  storage: they go through \<open>storageService\<close>.
\<close>

definition handleExport_local :: "jsval \<Rightarrow> File" where
  "handleExport_local d = exportBackup d"

definition handleImport_local :: "File option \<Rightarrow> bool \<Rightarrow> jsval \<Rightarrow> jsval \<times> Alert option" where
  "handleImport_local chosen confirmed d =
     (case chosen of
        None \<Rightarrow> (d, None)
      | Some f \<Rightarrow>
          (case importBackup f of
             Inl err \<Rightarrow> (d, Some (BackupAlert err))
           | Inr importedData \<Rightarrow> (if confirmed then importedData else d, None)))"

section \<open>Example data\<close>

text \<open>
  A catalogue of one book and an empty roster, on 2024-01-01T00:00:00Z on a clock at UTC,
  with the string functions of the range below 256 and every request to the store
  succeeding; the form asks for a loan of that book to Ana Silva of class 9A.
\<close>

definition dune :: Book where
  "dune = \<lparr>bTitle = ''Dune'', bAuthor = ''Frank Herbert'', bYear = 1965,
     bPublisher = ''Chilton'', bIsbn = ''9780441013593'', bBarcode = None, bEditionYear = 1965,
     bLocation = ''A1'', bCollection = None, bId = ''B1''\<rparr>"

definition dune_row :: books_row where
  "dune_row = \<lparr>books_title = ''Dune'', books_author = ''Frank Herbert'',
     books_year = 1965, books_publisher = ''Chilton'', books_isbn = ''9780441013593'',
     books_barcode = None, books_edition_year = 1965, books_location = ''A1'',
     books_collection = None, books_id = ''B1''\<rparr>"

definition env0 :: Env where
  "env0 = \<lparr>now = 1704067200000, zone = utc, toLowerCase = toLowerCase_latin1,
     trim = trim_latin1, fails = (\<lambda>r. False), newBookId = ''B2'', newStudentId = ''S1'',
     newLoanId = ''L1''\<rparr>"

definition app0 :: App where
  "app0 = \<lparr>data = \<lparr>books = [dune], loans = [], students = []\<rparr>, dataLoading = False,
     showBookForm = False, editingBook = None, showStudentForm = False,
     editingStudent = None, showLoanForm = True, editingLoan = None,
     selectedStudentId = [], confirmDelete = None, toasts = []\<rparr>"

definition world0 :: World where
  "world0 = \<lparr>app = app0, remote = \<lparr>t_books = [dune_row], t_students = [], t_loans = []\<rparr>\<rparr>"

definition form0 :: LoanForm where
  "form0 = \<lparr>f_bookId = ''B1'', f_studentName = '' Ana Silva '', f_studentClass = ''9A''\<rparr>"

text \<open>
  The loan that request creates, due on 2024-01-08T00:00:00Z, and the state in which the
  user has opened it for editing, with Ana Silva on the roster.
\<close>

definition ana :: Loan where
  "ana = \<lparr>lId = ''L1'', studentName = ''Ana Silva'', studentClass = ''9A'', bookId = Some ''B1'',
     bookTitle = ''Dune'', loanDate = 1704067200000, dueDate = 1704672000000,
     returnDate = None\<rparr>"

definition ana_row :: loans_row where
  "ana_row = \<lparr>loans_id = ''L1'', loans_student_name = ''Ana Silva'',
     loans_student_class = ''9A'', loans_book_id = Some ''B1'', loans_book_title = ''Dune'',
     loans_loan_date = 1704067200000, loans_due_date = 1704672000000,
     loans_return_date = None\<rparr>"

definition ana_student :: Student where
  "ana_student = \<lparr>sName = ''Ana Silva'', sClass = ''9A'', sId = ''S1''\<rparr>"

definition ana_student_row :: students_row where
  "ana_student_row = \<lparr>students_name = ''Ana Silva'', students_class = ''9A'',
     students_id = ''S1''\<rparr>"

definition world1 :: World where
  "world1 =
     \<lparr>app = app0\<lparr>data := \<lparr>books = [dune], loans = [ana], students = [ana_student]\<rparr>,
              editingLoan := Some ana, selectedStudentId := ''S1''\<rparr>,
      remote = \<lparr>t_books = [dune_row], t_students = [ana_student_row], t_loans = [ana_row]\<rparr>\<rparr>"

definition env1 :: Env where
  "env1 = env0\<lparr>now := 1704844800000, newStudentId := ''S2'', newLoanId := ''L2''\<rparr>"

definition form1 :: LoanForm where
  "form1 = \<lparr>f_bookId = ''B1'', f_studentName = ''Bia Souza'', f_studentClass = ''9B''\<rparr>"

text \<open>
  The same loan once returned, on 2024-01-10T00:00:00Z, opened for editing the day after.
\<close>

definition ana_returned :: Loan where
  "ana_returned = ana\<lparr>returnDate := Some 1704844800000\<rparr>"

definition ana_returned_row :: loans_row where
  "ana_returned_row = ana_row\<lparr>loans_return_date := Some 1704844800000\<rparr>"

definition world2 :: World where
  "world2 =
     \<lparr>app = app0\<lparr>data := \<lparr>books = [dune], loans = [ana_returned], students = [ana_student]\<rparr>,
              editingLoan := Some ana_returned, selectedStudentId := ''S1''\<rparr>,
      remote = \<lparr>t_books = [dune_row], t_students = [ana_student_row],
        t_loans = [ana_returned_row]\<rparr>\<rparr>"

definition env2 :: Env where
  "env2 = env0\<lparr>now := 1704931200000, newStudentId := ''S2'', newLoanId := ''L2''\<rparr>"

text \<open>
  The state of \<open>world1\<close> with no loan being edited and with a second student on the
  roster, JOSE of class 7B, whose last letter has an acute accent (the character 201).
  Forms that name a book that is not in the catalogue; a student name made of a no-break
  space (the character 160), a space and a tab; Ana Silva and Jose (the last letter being
  the character 233) in other letter case and with white space around; and a student who
  is not on the roster, with white space around. The environments in which the write of
  the loan fails, in which every request fails, and in which the request of \<open>form0\<close> is
  made again.
\<close>

definition jose_student :: Student where
  "jose_student = \<lparr>sName = ''JOS'' @ [CHR 0xC9], sClass = ''7B'', sId = ''S3''\<rparr>"

definition jose_student_row :: students_row where
  "jose_student_row = \<lparr>students_name = ''JOS'' @ [CHR 0xC9], students_class = ''7B'',
     students_id = ''S3''\<rparr>"

definition world3 :: World where
  "world3 =
     \<lparr>app = app0\<lparr>data := \<lparr>books = [dune], loans = [ana],
                        students = [ana_student, jose_student]\<rparr>\<rparr>,
      remote = \<lparr>t_books = [dune_row], t_students = [ana_student_row, jose_student_row],
        t_loans = [ana_row]\<rparr>\<rparr>"

definition form_unknown :: LoanForm where
  "form_unknown = \<lparr>f_bookId = ''B9'', f_studentName = ''Ana Silva'', f_studentClass = ''9A''\<rparr>"

definition form_blank :: LoanForm where
  "form_blank = \<lparr>f_bookId = ''B1'', f_studentName = [CHR 0xA0, CHR 0x20, CHR 0x09],
     f_studentClass = ''9A''\<rparr>"

definition form_upper :: LoanForm where
  "form_upper = \<lparr>f_bookId = ''B1'', f_studentName = ''  ANA SILVA '',
     f_studentClass = ''9a '' @ [CHR 0xA0]\<rparr>"

definition form_jose :: LoanForm where
  "form_jose = \<lparr>f_bookId = ''B1'', f_studentName = ''Jos'' @ [CHR 0xE9],
     f_studentClass = ''7b''\<rparr>"

definition form_new :: LoanForm where
  "form_new = \<lparr>f_bookId = ''B1'', f_studentName = ''  Bia Souza '',
     f_studentClass = [CHR 0x09] @ ''9B ''\<rparr>"

definition env_loan_fails :: Env where
  "env_loan_fails = env0\<lparr>fails := (\<lambda>r. r = InsertLoan)\<rparr>"

definition env_all_fail :: Env where
  "env_all_fail = env0\<lparr>fails := (\<lambda>r. True)\<rparr>"

definition env_retry :: Env where
  "env_retry = env0\<lparr>newStudentId := ''S2''\<rparr>"

text \<open>
  A loan due on 2024-06-09T12:00:00Z and not returned, looked at on 2024-06-10T15:30:00Z
  (1718033400000), a day that starts at 1717977600000.
\<close>

definition due_yesterday :: Loan where
  "due_yesterday = \<lparr>lId = ''L2'', studentName = ''Ana Silva'', studentClass = ''9A'',
     bookId = Some ''B1'', bookTitle = ''Dune'', loanDate = 1717329600000,
     dueDate = 1717934400000, returnDate = None\<rparr>"

text \<open>
  A loan due in London on 2024-03-30 at 12:00 (1711800000000) and not returned, looked at
  on 2024-03-31 at 12:00 on the London clock (1711882800000), 23 hours later.
\<close>

definition due_before_clock_change :: Loan where
  "due_before_clock_change = \<lparr>lId = ''L3'', studentName = ''Ana Silva'', studentClass = ''9A'',
     bookId = Some ''B1'', bookTitle = ''Dune'', loanDate = 1711195200000,
     dueDate = 1711800000000, returnDate = None\<rparr>"

text \<open>
  The data of a book and of a student as their forms give them, and the states in which a
  book, a student and a delete are pending.
\<close>

definition emma :: BookData where
  "emma = \<lparr>bTitle = ''Emma'', bAuthor = ''Jane Austen'', bYear = 1815,
     bPublisher = ''John Murray'', bIsbn = ''9780141439587'', bBarcode = None,
     bEditionYear = 2003, bLocation = ''A2'', bCollection = None\<rparr>"

definition bia :: StudentData where
  "bia = \<lparr>sName = ''Bia Souza'', sClass = ''9B''\<rparr>"

definition world_delete :: World where
  "world_delete =
     world3\<lparr>app := (app world3)\<lparr>confirmDelete :=
       Some \<lparr>cd_type = DeleteTypeBook, cd_id = ''B1'', cd_message = ''Dune''\<rparr>\<rparr>\<rparr>"

text \<open>
  A snapshot as a value: one book, one student and one returned loan, with the dates as
  the strings they are.
\<close>

definition snapshot1 :: jsval where
  "snapshot1 =
     VObj [(''books'',
            VArr [VObj [(''id'', VStr ''B1''), (''title'', VStr ''Dune''),
                        (''author'', VStr ''Frank Herbert''), (''year'', VNum 1965),
                        (''publisher'', VStr ''Chilton''), (''isbn'', VStr ''9780441013593''),
                        (''barcode'', VNull), (''editionYear'', VNum 1965),
                        (''location'', VStr ''A1''), (''collection'', VNull)]]),
           (''students'',
            VArr [VObj [(''id'', VStr ''S1''), (''name'', VStr ''Ana Silva''),
                        (''class'', VStr ''9A'')]]),
           (''loans'',
            VArr [VObj [(''id'', VStr ''L1''), (''studentName'', VStr ''Ana Silva''),
                        (''studentClass'', VStr ''9A''), (''bookId'', VStr ''B1''),
                        (''bookTitle'', VStr ''Dune''),
                        (''loanDate'', VStr ''2024-01-01T00:00:00.000Z''),
                        (''dueDate'', VStr ''2024-01-08T00:00:00.000Z''),
                        (''returnDate'', VStr ''2024-01-10T00:00:00.000Z'')]])]"

text \<open>The ISO strings of the three instants of that snapshot.\<close>

definition toISOString_jan :: "timestamp \<Rightarrow> string" where
  "toISOString_jan t =
     (if t = 1704067200000 then ''2024-01-01T00:00:00.000Z''
      else if t = 1704672000000 then ''2024-01-08T00:00:00.000Z''
      else if t = 1704844800000 then ''2024-01-10T00:00:00.000Z''
      else [])"

section \<open>Properties\<close>

subsection \<open>The date library on a clock at a fixed offset\<close>

lemma div_diff_eq:
  fixes L R d :: int
  assumes "0 < d"
  shows "(L - R) div d = L div d - R div d - (if L mod d < R mod d then 1 else 0)"
proof -
  define p q where "p = L mod d" and "q = R mod d"
  have e: "L - R = d * (L div d - R div d) + (p - q)"
    by (simp add: algebra_simps p_def q_def)
  have b: "0 \<le> p" "p < d" "0 \<le> q" "q < d"
    using assms by (simp_all add: p_def q_def)
  show ?thesis
  proof (cases "p < q")
    case True
    have "L - R = d * (L div d - R div d - 1) + (p - q + d)"
      using e by (simp add: algebra_simps)
    moreover have "0 \<le> p - q + d" "p - q + d < d" using b True by linarith+
    ultimately have "(L - R) div d = L div d - R div d - 1"
      by (rule int_div_pos_eq)
    with True show ?thesis by (simp add: p_def q_def)
  next
    case False
    have "0 \<le> p - q" "p - q < d" using b False by linarith+
    with e have "(L - R) div d = L div d - R div d"
      by (rule int_div_pos_eq)
    with False show ?thesis by (simp add: p_def q_def)
  qed
qed

lemma Math_round_div_mult: "0 < d \<Longrightarrow> Math_round_div (d * k) d = k"
proof -
  assume d: "0 < d"
  have "2 * (d * k) + d = (2 * d) * k + d" by simp
  then have "(2 * (d * k) + d) div (2 * d) = k"
    by (rule int_div_pos_eq) (use d in auto)
  then show ?thesis by (simp add: Math_round_div_def)
qed

lemma toLocal_startOfDay_fixed:
  "toLocal (fixedZone off) (startOfDay (fixedZone off) x) = msPerDay * ((x + off) div msPerDay)"
  by (simp add: startOfDay_def fixedZone_def minus_mod_eq_mult_div)

lemma differenceInCalendarDays_fixed:
  "differenceInCalendarDays (fixedZone off) l r =
     (l + off) div msPerDay - (r + off) div msPerDay"
proof -
  have "0 < msPerDay" by (simp add: msPerDay_def)
  then show ?thesis
    unfolding differenceInCalendarDays_def toLocal_startOfDay_fixed
    by (simp add: right_diff_distrib [symmetric] Math_round_div_mult)
qed

lemma shifted_fixed:
  "compareLocalAsc (fixedZone off)
     (fromLocal (fixedZone off) (toLocal (fixedZone off) l - k * msPerDay)) r =
   sgn (l + off - k * msPerDay - (r + off))"
  by (simp add: compareLocalAsc_def fixedZone_def algebra_simps)

lemma local_split:
  fixes x :: int
  shows "x - (x div msPerDay - y div msPerDay) * msPerDay - y = x mod msPerDay - y mod msPerDay"
proof -
  have "x = msPerDay * (x div msPerDay) + x mod msPerDay"
    "y = msPerDay * (y div msPerDay) + y mod msPerDay"
    by simp_all
  then show ?thesis by (simp add: algebra_simps)
qed

text \<open>At a fixed offset \<open>differenceInDays\<close> is the division of the time between, truncated
  towards zero.\<close>

lemma differenceInDays_fixed:
  "differenceInDays (fixedZone off) l r =
     (if r \<le> l then (l - r) div msPerDay else - ((r - l) div msPerDay))"
proof -
  have d: "0 < msPerDay" by (simp add: msPerDay_def)
  let ?z = "fixedZone off"
  let ?L = "l + off" and ?R = "r + off"
  let ?a = "?L div msPerDay" and ?b = "?R div msPerDay"
  let ?p = "?L mod msPerDay" and ?q = "?R mod msPerDay"
  have LR: "(l - r) div msPerDay = ?a - ?b - (if ?p < ?q then 1 else 0)"
    using div_diff_eq [OF d, of ?L ?R] by simp
  have RL: "(r - l) div msPerDay = ?b - ?a - (if ?q < ?p then 1 else 0)"
    using div_diff_eq [OF d, of ?R ?L] by simp
  have cmp: "compareLocalAsc ?z l r = sgn (l - r)"
    by (simp add: compareLocalAsc_def fixedZone_def)
  have cal: "differenceInCalendarDays ?z l r = ?a - ?b"
    by (rule differenceInCalendarDays_fixed)
  consider "r < l" | "r = l" | "l < r" by linarith
  then show ?thesis
  proof cases
    case 1
    then have m: "\<bar>?a - ?b\<bar> = ?a - ?b"
      using zdiv_mono1 [of ?R ?L msPerDay] d by simp
    have sg: "sgn (l - r) = 1" using 1 by simp
    have sh: "compareLocalAsc ?z (fromLocal ?z (toLocal ?z l - 1 * (?a - ?b) * msPerDay)) r =
        sgn (?p - ?q)"
      using local_split [of ?L ?R] by (simp add: shifted_fixed)
    have "differenceInDays ?z l r = ?a - ?b - (if ?p < ?q then 1 else 0)"
      unfolding differenceInDays_def Let_def cmp cal sg m sh
      by (simp add: sgn_if)
    with 1 LR show ?thesis by simp
  next
    case 2
    then show ?thesis
      by (simp add: differenceInDays_def compareLocalAsc_def Let_def)
  next
    case 3
    then have m: "\<bar>?a - ?b\<bar> = ?b - ?a"
      using zdiv_mono1 [of ?L ?R msPerDay] d by simp
    have sg: "sgn (l - r) = - 1" using 3 by simp
    have h: "l + off - (- 1) * (?b - ?a) * msPerDay - (r + off) = ?p - ?q"
      using local_split [of ?L ?R] by (simp add: algebra_simps)
    have sh: "compareLocalAsc ?z (fromLocal ?z (toLocal ?z l - (- 1) * (?b - ?a) * msPerDay)) r =
        sgn (?p - ?q)"
      unfolding shifted_fixed h by (rule refl)
    have "differenceInDays ?z l r = - (?b - ?a - (if ?q < ?p then 1 else 0))"
      unfolding differenceInDays_def Let_def cmp cal sg m sh
      by (simp add: sgn_if)
    with 3 RL show ?thesis by simp
  qed
qed

lemma differenceInDays_floor:
  "earlier < later \<Longrightarrow>
     differenceInDays (fixedZone off) later earlier =
       \<lfloor>real_of_int (later - earlier) / real_of_int msPerDay\<rfloor>"
  using floor_divide_of_int_eq [of "later - earlier" msPerDay, where ?'a = real]
  by (simp add: differenceInDays_fixed)

lemma startOfDay_fixed: "startOfDay (fixedZone off) d = d - (d + off) mod msPerDay"
  by (simp add: startOfDay_def fixedZone_def)

lemma addDays_fixed: "addDays (fixedZone off) d amount = d + amount * msPerDay"
  by (simp add: addDays_def fixedZone_def)

lemma differenceInDays_window:
  "(0 \<le> differenceInDays (fixedZone off) d t \<and> differenceInDays (fixedZone off) d t \<le> 2) \<longleftrightarrow>
   (t - msPerDay < d \<and> d < t + 3 * msPerDay)"
  unfolding differenceInDays_fixed msPerDay_def by (cases "t \<le> d") auto

text \<open>The window of due dates that the notifications take, and the claim's examples.\<close>

lemma upcoming_window:
  "upcoming (fixedZone off) current ls =
     map (\<lambda>l. \<lparr>n_id = lId l, n_bookTitle = bookTitle l, n_studentName = studentName l,
               n_dueDate = dueDate l\<rparr>)
      (filter (\<lambda>l. returnDate l = None \<and>
                   startOfDay (fixedZone off) current - msPerDay < dueDate l \<and>
                   dueDate l < startOfDay (fixedZone off) current + 3 * msPerDay) ls)"
  by (simp add: upcoming_def Let_def differenceInDays_window conj_commute conj_left_commute
      cong: conj_cong)

lemma upcoming_examples:
  "map n_id (upcoming utc 1717977600000
     [due_yesterday\<lparr>lId := ''L3'', dueDate := 1718233200000\<rparr>,
      due_yesterday\<lparr>lId := ''L4'', dueDate := 1718236860000\<rparr>]) = [''L3'']"
  by code_simp

subsection \<open>Auxiliary facts\<close>

lemma remote_showToast [simp]: "remote (showToast t w) = remote w"
  by (simp add: showToast_def)

lemma remote_closeLoanForm [simp]: "remote (closeLoanForm w) = remote w"
  by (simp add: closeLoanForm_def)

lemma remote_loadAllData [simp]: "remote (loadAllData env w) = remote w"
  by (simp add: loadAllData_def split: sum.splits)

lemma data_showToast [simp]: "data (app (showToast t w)) = data (app w)"
  by (simp add: showToast_def)

lemma data_closeLoanForm [simp]: "data (app (closeLoanForm w)) = data (app w)"
  by (simp add: closeLoanForm_def)

lemma editingLoan_showToast [simp]: "editingLoan (app (showToast t w)) = editingLoan (app w)"
  by (simp add: showToast_def)

lemma toasts_closeLoanForm [simp]: "toasts (app (closeLoanForm w)) = toasts (app w)"
  by (simp add: closeLoanForm_def)

lemma loans_loadAllData:
  "\<not> fails env FetchBooks \<Longrightarrow> \<not> fails env FetchStudents \<Longrightarrow> \<not> fails env FetchLoans \<Longrightarrow>
     loans (data (app (loadAllData env w))) =
       map rowToLoan (rev (sort_key loans_loan_date (t_loans (remote w))))"
  by (simp add: loadAllData_def fetchBooks_def fetchStudents_def fetchLoans_def)

lemma autoCreateStudent_keeps:
  "autoCreateStudent env name cls w = (r, w1) \<Longrightarrow>
     t_loans (remote w1) = t_loans (remote w) \<and> t_books (remote w1) = t_books (remote w) \<and>
     editingLoan (app w1) = editingLoan (app w) \<and> data (app w1) = data (app w)"
  by (auto simp: autoCreateStudent_def insertStudent_def Let_def
      split: option.splits sum.splits if_splits)

lemma autoCreateStudent_found:
  "find (\<lambda>s. toLowerCase env (sName s) = toLowerCase env name \<and>
             toLowerCase env (sClass s) = toLowerCase env cls)
     (students (data (app w))) = Some s \<Longrightarrow>
   autoCreateStudent env name cls w = (Inr s, w)"
  by (simp add: autoCreateStudent_def)

lemma autoCreateStudent_new:
  "find (\<lambda>s. toLowerCase env (sName s) = toLowerCase env name \<and>
             toLowerCase env (sClass s) = toLowerCase env cls)
     (students (data (app w))) = None \<Longrightarrow>
   autoCreateStudent env name cls w =
     (if fails env InsertStudent then (Inl PostgrestError, w)
      else (Inr \<lparr>sName = name, sClass = cls, sId = newStudentId env\<rparr>,
            showToast (StudentAutoRegistered name)
              (w\<lparr>remote := (remote w)\<lparr>t_students := t_students (remote w) @
                 [\<lparr>students_name = name, students_class = cls,
                   students_id = newStudentId env\<rparr>]\<rparr>\<rparr>)))"
  by (simp add: autoCreateStudent_def insertStudent_def rowToStudent_def Let_def)

lemma update_loans_row_dates:
  "loans_id (update_loans_row (loanToRow p) r) = loans_id r"
  "p_loanDate p = Undefined \<Longrightarrow>
     loans_loan_date (update_loans_row (loanToRow p) r) = loans_loan_date r"
  "p_dueDate p = Undefined \<Longrightarrow>
     loans_due_date (update_loans_row (loanToRow p) r) = loans_due_date r"
  by (simp_all add: update_loans_row_def loanToRow_def assign_def)

text \<open>The three ways a run of \<open>handleSaveLoan\<close> ends.\<close>

lemma handleSaveLoan_cases:
  "handleSaveLoan env form w = (EarlyReturn, w) \<or>
   (\<exists>book e w1. find (\<lambda>b. bId b = f_bookId form) (books (data (app w))) = Some book \<and>
      handleSaveLoan_try env book (trim env (f_studentName form))
          (trim env (f_studentClass form)) w = (Inl e, w1) \<and>
      handleSaveLoan env form w = (Caught, closeLoanForm (showToast LoanSaveError w1))) \<or>
   (\<exists>book u w1. find (\<lambda>b. bId b = f_bookId form) (books (data (app w))) = Some book \<and>
      handleSaveLoan_try env book (trim env (f_studentName form))
          (trim env (f_studentClass form)) w = (Inr u, w1) \<and>
      handleSaveLoan env form w = (Completed, closeLoanForm w1))"
  by (auto simp: handleSaveLoan_def Let_def split: option.splits sum.splits prod.splits)

lemma handleSaveLoan_valid:
  assumes "find (\<lambda>b. bId b = f_bookId form) (books (data (app w))) = Some book"
    "trim env (f_studentName form) \<noteq> []" "trim env (f_studentClass form) \<noteq> []"
  shows "handleSaveLoan env form w =
     (case handleSaveLoan_try env book (trim env (f_studentName form))
             (trim env (f_studentClass form)) w
      of (Inl e, w1) \<Rightarrow> (Caught, closeLoanForm (showToast LoanSaveError w1))
       | (Inr u, w1) \<Rightarrow> (Completed, closeLoanForm w1))"
  using assms by (simp add: handleSaveLoan_def Let_def)

lemma try_students:
  assumes "autoCreateStudent env name cls w = (r, w1)"
  shows "t_students (remote (snd (handleSaveLoan_try env book name cls w))) =
           t_students (remote w1)"
  using assms
  by (cases r)
    (auto simp: handleSaveLoan_try_def updateLoan_def insertLoan_def Let_def
      split: option.splits sum.splits if_splits)

lemma try_create_row:
  assumes "autoCreateStudent env name cls w = (Inr s, w1)" "editingLoan (app w) = None"
    "\<not> fails env InsertLoan"
  shows "\<exists>w2. handleSaveLoan_try env book name cls w = (Inr (), w2) \<and>
      t_loans (remote w2) = t_loans (remote w) @
        [\<lparr>loans_id = newLoanId env, loans_student_name = sName s,
          loans_student_class = sClass s, loans_book_id = Some (bId book),
          loans_book_title = bTitle book, loans_loan_date = now env,
          loans_due_date = addDays (zone env) (now env) 7, loans_return_date = None\<rparr>]"
proof -
  note k = autoCreateStudent_keeps [OF assms(1)]
  with assms have e: "editingLoan (app w1) = None" by simp
  have t: "t_loans (remote w1) = t_loans (remote w)" using k by simp
  show ?thesis
    using assms(3)
    by (simp add: handleSaveLoan_try_def assms(1) e t insertLoan_def insert_loans_row_def
        loanToRow_def Let_def rowToLoan_def)
qed

text \<open>
  What an edit does to the dates of the loans: every row keeps its id, its loan date and
  its due date, however the run ends; a run that gets past the \<open>try\<close> block sets the return
  date of the edited row to null.
\<close>

lemma try_edit_dates:
  assumes "editingLoan (app w) \<noteq> None"
  shows "map (\<lambda>r. (loans_id r, loans_loan_date r, loans_due_date r))
           (t_loans (remote (snd (handleSaveLoan_try env book name cls w)))) =
         map (\<lambda>r. (loans_id r, loans_loan_date r, loans_due_date r)) (t_loans (remote w))"
proof -
  obtain r w1 where a: "autoCreateStudent env name cls w = (r, w1)"
    by (cases "autoCreateStudent env name cls w")
  note k = autoCreateStudent_keeps [OF a]
  from assms obtain editing where e0: "editingLoan (app w) = Some editing" by auto
  with k have e: "editingLoan (app w1) = Some editing" by simp
  have t: "t_loans (remote w1) = t_loans (remote w)" using k by simp
  show ?thesis
    by (cases r) (auto simp: handleSaveLoan_try_def a e t updateLoan_def
        update_loans_row_dates o_def split: sum.splits)
qed

lemma edit_keeps_dates:
  assumes a: "editingLoan (app w) \<noteq> None"
  shows "map (\<lambda>r. (loans_id r, loans_loan_date r, loans_due_date r))
           (t_loans (remote (snd (handleSaveLoan env form w)))) =
         map (\<lambda>r. (loans_id r, loans_loan_date r, loans_due_date r)) (t_loans (remote w))"
proof -
  let ?n = "trim env (f_studentName form)" and ?c = "trim env (f_studentClass form)"
  let ?key = "\<lambda>r. (loans_id r, loans_loan_date r, loans_due_date r)"
  have kept: "map ?key (t_loans (remote (snd (handleSaveLoan_try env book ?n ?c w)))) =
      map ?key (t_loans (remote w))" for book
    using try_edit_dates [OF a, of env book ?n ?c] by simp
  consider "handleSaveLoan env form w = (EarlyReturn, w)"
    | book e w1 where "handleSaveLoan_try env book ?n ?c w = (Inl e, w1)"
        "handleSaveLoan env form w = (Caught, closeLoanForm (showToast LoanSaveError w1))"
    | book u w1 where "handleSaveLoan_try env book ?n ?c w = (Inr u, w1)"
        "handleSaveLoan env form w = (Completed, closeLoanForm w1)"
    using handleSaveLoan_cases [of env form w] by blast
  then show ?thesis
  proof cases
    case 1
    then show ?thesis by simp
  next
    case (2 book e w1)
    then show ?thesis using kept [of book] by simp
  next
    case (3 book u w1)
    then show ?thesis using kept [of book] by simp
  qed
qed

lemma try_edit_return_date:
  assumes "editingLoan (app w) = Some editing"
    "handleSaveLoan_try env book name cls w = (Inr u, w')"
  shows "map loans_return_date (t_loans (remote w')) =
         map (\<lambda>r. if loans_id r = lId editing then None else loans_return_date r)
           (t_loans (remote w))"
proof -
  obtain r w1 where a: "autoCreateStudent env name cls w = (r, w1)"
    by (cases "autoCreateStudent env name cls w")
  note k = autoCreateStudent_keeps [OF a]
  with assms have e: "editingLoan (app w1) = Some editing" by simp
  have t: "t_loans (remote w1) = t_loans (remote w)" using k by simp
  show ?thesis
    using assms(2)
    by (cases r) (auto simp: handleSaveLoan_try_def a e t updateLoan_def
        update_loans_row_def loanToRow_def o_def split: sum.splits if_splits)
qed

text \<open>
  The loan that a run of \<open>handleSaveLoan\<close> creates: its due date is \<open>addDays\<close> of its loan
  date and 7, that is the same wall time 7 calendar days later whenever the clock has that
  wall time, and 604800000 milliseconds later on a clock at a fixed offset. In London, a
  week that has the start of summer time in it is an hour shorter.
\<close>

lemma addDays_across_clock_change:
  "addDays london 1711540800000 7 = 1711540800000 + 7 * msPerDay - 3600000 \<and>
   toLocal london (addDays london 1711540800000 7) =
     toLocal london 1711540800000 + 7 * msPerDay"
  by code_simp

lemma created_loan_dates:
  assumes "editingLoan (app w) = None" "handleSaveLoan env form w = (Completed, w')"
  shows "\<exists>row. t_loans (remote w') = t_loans (remote w) @ [row] \<and>
           loans_loan_date row = now env \<and>
           loans_due_date row = addDays (zone env) (loans_loan_date row) 7 \<and>
           loans_return_date row = None \<and>
           (toLocal (zone env)
                (fromLocal (zone env) (toLocal (zone env) (now env) + 7 * msPerDay)) =
              toLocal (zone env) (now env) + 7 * msPerDay \<longrightarrow>
              toLocal (zone env) (loans_due_date row) =
                toLocal (zone env) (loans_loan_date row) + 7 * msPerDay) \<and>
           (zone env = fixedZone off \<longrightarrow>
              loans_due_date row - loans_loan_date row = 7 * 86400000)"
proof -
  from assms handleSaveLoan_cases [of env form w] obtain book u w1 where
    t: "handleSaveLoan_try env book (trim env (f_studentName form))
          (trim env (f_studentClass form)) w = (Inr u, w1)"
    and w': "w' = closeLoanForm w1"
    by auto
  obtain r w0 where a: "autoCreateStudent env (trim env (f_studentName form))
      (trim env (f_studentClass form)) w = (r, w0)"
    by (cases "autoCreateStudent env (trim env (f_studentName form))
      (trim env (f_studentClass form)) w")
  note k = autoCreateStudent_keeps [OF a]
  from assms k have e: "editingLoan (app w0) = None" by auto
  have tl: "t_loans (remote w0) = t_loans (remote w)" using k by simp
  show ?thesis
    using t
    by (cases r) (auto simp: handleSaveLoan_try_def a e tl w' insertLoan_def
        insert_loans_row_def loanToRow_def Let_def addDays_def fixedZone_def msPerDay_def
        split: sum.splits if_splits option.splits)
qed

subsection \<open>Writes that fail\<close>

lemma try_student_write_fails:
  "autoCreateStudent env name cls w = (Inl e, w1) \<Longrightarrow>
     handleSaveLoan_try env book name cls w = (Inl e, w1)"
  by (simp add: handleSaveLoan_try_def)

lemma try_loan_write_fails:
  assumes "fails env (if editingLoan (app w) = None then InsertLoan else UpdateLoan)"
    "autoCreateStudent env name cls w = (Inr s, w1)"
  shows "handleSaveLoan_try env book name cls w = (Inl PostgrestError, w1)"
proof -
  note k = autoCreateStudent_keeps [OF assms(2)]
  show ?thesis
  proof (cases "editingLoan (app w)")
    case None
    with k have "editingLoan (app w1) = None" by simp
    with assms None show ?thesis
      by (simp add: handleSaveLoan_try_def insertLoan_def Let_def)
  next
    case (Some editing)
    with k have "editingLoan (app w1) = Some editing" by simp
    with assms Some show ?thesis
      by (simp add: handleSaveLoan_try_def updateLoan_def)
  qed
qed

lemma handleSaveBook_fails:
  assumes "fails env (if editingBook (app w) = None then InsertBook else UpdateBook)"
  shows "handleSaveBook env bookData w = closeBookForm (showToast BookSaveError w)"
  using assms
  by (cases "editingBook (app w)") (simp_all add: handleSaveBook_def insertBook_def updateBook_def)

lemma handleSaveStudent_fails:
  assumes "fails env (if editingStudent (app w) = None then InsertStudent else UpdateStudent)"
  shows "handleSaveStudent env studentData w = closeStudentForm (showToast StudentSaveError w)"
  using assms
  by (cases "editingStudent (app w)")
    (simp_all add: handleSaveStudent_def insertStudent_def updateStudent_def)

lemma handleReturnBook_fails:
  "fails env UpdateLoan \<Longrightarrow> handleReturnBook env loanId w = showToast ReturnError w"
  by (simp add: handleReturnBook_def updateLoan_def)

lemma executeDelete_fails:
  assumes "confirmDelete (app w) = Some cd" "fails env (deleteRequest (cd_type cd))"
  shows "executeDelete env w =
     (showToast DeleteError w)\<lparr>app := (app (showToast DeleteError w))\<lparr>confirmDelete := None\<rparr>\<rparr>"
  using assms
  by (cases "cd_type cd")
    (simp_all add: executeDelete_def deleteRequest_def deleteBook_def deleteStudent_def
      deleteLoan_def Let_def)

lemma handleSaveLoan_student_write_fails:
  assumes "find (\<lambda>b. bId b = f_bookId form) (books (data (app w))) = Some book"
    "trim env (f_studentName form) \<noteq> []" "trim env (f_studentClass form) \<noteq> []"
    "find (\<lambda>s. toLowerCase env (sName s) = toLowerCase env (trim env (f_studentName form)) \<and>
               toLowerCase env (sClass s) = toLowerCase env (trim env (f_studentClass form)))
       (students (data (app w))) = None"
    "fails env InsertStudent"
  shows "handleSaveLoan env form w = (Caught, closeLoanForm (showToast LoanSaveError w))"
proof -
  have "autoCreateStudent env (trim env (f_studentName form)) (trim env (f_studentClass form)) w =
      (Inl PostgrestError, w)"
    using assms(4,5) by (simp add: autoCreateStudent_new)
  from try_student_write_fails [OF this, of book] show ?thesis
    by (simp add: handleSaveLoan_valid [OF assms(1-3)])
qed

lemma handleSaveLoan_loan_write_fails:
  assumes "find (\<lambda>b. bId b = f_bookId form) (books (data (app w))) = Some book"
    "trim env (f_studentName form) \<noteq> []" "trim env (f_studentClass form) \<noteq> []"
    "fails env (if editingLoan (app w) = None then InsertLoan else UpdateLoan)"
  shows "handleSaveLoan env form w =
     (Caught, closeLoanForm (showToast LoanSaveError
        (if find (\<lambda>s. toLowerCase env (sName s) =
                         toLowerCase env (trim env (f_studentName form)) \<and>
                       toLowerCase env (sClass s) =
                         toLowerCase env (trim env (f_studentClass form)))
              (students (data (app w))) = None \<and> \<not> fails env InsertStudent
         then showToast (StudentAutoRegistered (trim env (f_studentName form)))
                (w\<lparr>remote := (remote w)\<lparr>t_students := t_students (remote w) @
                   [\<lparr>students_name = trim env (f_studentName form),
                     students_class = trim env (f_studentClass form),
                     students_id = newStudentId env\<rparr>]\<rparr>\<rparr>)
         else w)))"
proof -
  let ?n = "trim env (f_studentName form)" and ?c = "trim env (f_studentClass form)"
  let ?found = "find (\<lambda>s. toLowerCase env (sName s) = toLowerCase env ?n \<and>
                       toLowerCase env (sClass s) = toLowerCase env ?c)
              (students (data (app w)))"
  note run = handleSaveLoan_valid [OF assms(1-3)]
  show ?thesis
  proof (cases ?found)
    case (Some s)
    note a = autoCreateStudent_found [OF Some]
    from try_loan_write_fails [OF assms(4) a, of book] Some show ?thesis
      by (simp add: run)
  next
    case None
    show ?thesis
    proof (cases "fails env InsertStudent")
      case True
      from handleSaveLoan_student_write_fails [OF assms(1-3) None True] None True
      show ?thesis by simp
    next
      case False
      with None have a: "autoCreateStudent env ?n ?c w =
        (Inr \<lparr>sName = ?n, sClass = ?c, sId = newStudentId env\<rparr>,
         showToast (StudentAutoRegistered ?n)
              (w\<lparr>remote := (remote w)\<lparr>t_students := t_students (remote w) @
                 [\<lparr>students_name = ?n, students_class = ?c,
                   students_id = newStudentId env\<rparr>]\<rparr>\<rparr>))"
        by (simp add: autoCreateStudent_new)
      from try_loan_write_fails [OF assms(4) a, of book] None False show ?thesis
        by (simp add: run)
    qed
  qed
qed

subsection \<open>The due date\<close>

text \<open>
  C1. The claim: the due date of a new loan is its loan date plus 7 calendar days, and an
  edit leaves the loan date and the due date as they are and changes only the student and
  the book of the loan. The code: the due date is \<open>addDays\<close> of the loan date and 7, and the
  update that an edit sends keeps the id, the loan date and the due date of every row
  (\<open>created_loan_dates\<close> and \<open>edit_keeps_dates\<close> above); but \<open>loanToRow\<close> turns the
  \<open>returnDate\<close> that the edit leaves out into \<open>return_date: null\<close>, and the update writes
  it. Here the loan returned on 2024-01-10 is opened for editing and given to another
  student, Bia Souza of class 9B: the run completes, the row has the new student and its
  id, book, loan date and due date as before, and its return date, which is neither a
  student nor a book field, has gone from 2024-01-10 to null; the reloaded snapshot shows
  the loan as not returned.
\<close>

theorem edit_changes_return_date:
  "t_loans (remote world2) =
     [\<lparr>loans_id = ''L1'', loans_student_name = ''Ana Silva'', loans_student_class = ''9A'',
       loans_book_id = Some ''B1'', loans_book_title = ''Dune'',
       loans_loan_date = 1704067200000, loans_due_date = 1704672000000,
       loans_return_date = Some 1704844800000\<rparr>] \<and>
   fst (handleSaveLoan env2 form1 world2) = Completed \<and>
   t_loans (remote (snd (handleSaveLoan env2 form1 world2))) =
     [\<lparr>loans_id = ''L1'', loans_student_name = ''Bia Souza'', loans_student_class = ''9B'',
       loans_book_id = Some ''B1'', loans_book_title = ''Dune'',
       loans_loan_date = 1704067200000, loans_due_date = 1704672000000,
       loans_return_date = None\<rparr>] \<and>
   loans (data (app (snd (handleSaveLoan env2 form1 world2)))) =
     [\<lparr>lId = ''L1'', studentName = ''Bia Souza'', studentClass = ''9B'', bookId = Some ''B1'',
       bookTitle = ''Dune'', loanDate = 1704067200000, dueDate = 1704672000000,
       returnDate = None\<rparr>]"
  by code_simp

subsection \<open>The status of a loan\<close>

text \<open>
  C2, as the claim states it, has the days of delay be the floor of the time since the
  due date, in days. \<open>differenceInDays\<close> counts full days on the local clock. In London the
  loan due on 2024-03-30 at 12:00 is looked at on 2024-03-31 at 12:00, after the clocks
  have gone forward: 23 hours have passed, whose floor in days is 0, and the badge shows
  1 day of delay.
\<close>

theorem overdue_days_across_clock_change:
  "returnDate due_before_clock_change = None \<and>
   dueDate due_before_clock_change = 1711800000000 \<and>
   toLocal london 1711800000000 = 1711800000000 \<and>
   toLocal london 1711882800000 = 1711800000000 + msPerDay \<and>
   \<lfloor>real_of_int (1711882800000 - dueDate due_before_clock_change) / real_of_int msPerDay\<rfloor> = 0 \<and>
   LoanStatusBadge london 1711882800000 due_before_clock_change True = Atrasado (Some 1)"
proof -
  have "\<lfloor>real_of_int (1711882800000 - dueDate due_before_clock_change) / real_of_int msPerDay\<rfloor> = 0"
    by (simp add: due_before_clock_change_def msPerDay_def)
  moreover have "returnDate due_before_clock_change = None"
    "dueDate due_before_clock_change = 1711800000000"
    "toLocal london 1711800000000 = 1711800000000"
    "toLocal london 1711882800000 = 1711800000000 + msPerDay"
    "LoanStatusBadge london 1711882800000 due_before_clock_change True = Atrasado (Some 1)"
    by code_simp+
  ultimately show ?thesis by simp
qed

text \<open>
  C2, amended. For a loan and an instant, on any clock: with a return date the badge is
  "Devolvido" (returned). Without one, the badge is "Atrasado" (overdue) exactly when the
  instant is strictly after the due date, and the days it then shows are those of
  \<open>differenceInDays\<close>, the full days from the due date to the instant on the local clock; on
  a clock at a fixed offset from UTC these are the floor of the time since the due date in
  days. Otherwise, and in particular at the due date itself, the badge is "Em aberto"
  (open).
\<close>

theorem LoanStatusBadge_status:
  "(returnDate loan \<noteq> None \<longrightarrow> LoanStatusBadge z current loan s = Devolvido) \<and>
   (returnDate loan = None \<longrightarrow>
      ((\<exists>d. LoanStatusBadge z current loan s = Atrasado d) \<longleftrightarrow> dueDate loan < current) \<and>
      (dueDate loan < current \<longrightarrow>
         LoanStatusBadge z current loan True =
           Atrasado (Some (differenceInDays z current (dueDate loan))) \<and>
         LoanStatusBadge z current loan False = Atrasado None \<and>
         (z = fixedZone off \<longrightarrow>
            differenceInDays z current (dueDate loan) =
              \<lfloor>real_of_int (current - dueDate loan) / real_of_int msPerDay\<rfloor>)) \<and>
      (\<not> dueDate loan < current \<longrightarrow> LoanStatusBadge z current loan s = EmAberto) \<and>
      (current = dueDate loan \<longrightarrow> LoanStatusBadge z current loan s = EmAberto))"
  by (auto simp: LoanStatusBadge_def isAfter_def differenceInDays_floor Let_def)

theorem LoanStatusBadge_status_witness:
  "LoanStatusBadge utc 1704844800000 ana True = Atrasado (Some 2) \<and>
   LoanStatusBadge utc 1704844800000 ana False = Atrasado None \<and>
   LoanStatusBadge (fixedZone (- 10800000)) 1704844799999 ana True = Atrasado (Some 1) \<and>
   LoanStatusBadge utc 1704672000000 ana True = EmAberto \<and>
   LoanStatusBadge utc 1704844800000 (ana\<lparr>returnDate := Some 1704844800000\<rparr>) True = Devolvido"
  using LoanStatusBadge_status [of ana utc 1704844800000 True 0]
    LoanStatusBadge_status [of ana "fixedZone (- 10800000)" 1704844799999 True "- 10800000"]
    LoanStatusBadge_status [of ana utc 1704672000000 True 0]
    LoanStatusBadge_status [of "ana\<lparr>returnDate := Some 1704844800000\<rparr>" utc 1704844800000 True 0]
  by (simp add: ana_def msPerDay_def utc_def)

subsection \<open>Returning is one-way\<close>

text \<open>
  C3. The claim: once a loan has a return date no operation clears it, and an edit does not
  touch it. The code: \<open>handleSaveLoan\<close> passes \<open>updateLoan\<close> only the student and book
  properties, and \<open>loanToRow\<close> turns the missing \<open>returnDate\<close> into \<open>return_date: null\<close>, which
  the update writes. Here the loan returned on 2024-01-10 is opened for editing and saved
  with the same student and book: the run completes, the row's return date is null, the
  reloaded loan has no return date, and its badge is "Atrasado" with 3 days.
\<close>

theorem edit_clears_returnDate:
  "map loans_return_date (t_loans (remote world2)) = [Some 1704844800000] \<and>
   fst (handleSaveLoan env2 form0 world2) = Completed \<and>
   map loans_return_date (t_loans (remote (snd (handleSaveLoan env2 form0 world2)))) = [None] \<and>
   map returnDate (loans (data (app (snd (handleSaveLoan env2 form0 world2))))) = [None] \<and>
   map (\<lambda>l. LoanStatusBadge (zone env2) (now env2) l True)
     (loans (data (app (snd (handleSaveLoan env2 form0 world2))))) = [Atrasado (Some 3)]"
  by code_simp

subsection \<open>The student of a new loan\<close>

text \<open>
  C4, as the claim states it, has no student created when the name and class are those of
  an existing student. \<open>handleSaveLoan\<close> looks for the student in the snapshot in memory,
  which a run that ends in the \<open>catch\<close> does not reload. The loan for Ana Silva of class 9A
  is asked for while the write of the loan fails: the student is inserted, and the snapshot
  still has no student. The same request is made again and succeeds: Ana Silva of class 9A,
  who is in the store by then, is inserted a second time.
\<close>

theorem student_inserted_twice:
  "students (data (app world0)) = [] \<and> t_students (remote world0) = [] \<and>
   fst (handleSaveLoan env_loan_fails form0 world0) = Caught \<and>
   t_students (remote (snd (handleSaveLoan env_loan_fails form0 world0))) =
     [\<lparr>students_name = ''Ana Silva'', students_class = ''9A'', students_id = ''S1''\<rparr>] \<and>
   students (data (app (snd (handleSaveLoan env_loan_fails form0 world0)))) = [] \<and>
   fst (handleSaveLoan env_retry form0 (snd (handleSaveLoan env_loan_fails form0 world0))) =
     Completed \<and>
   t_students (remote (snd (handleSaveLoan env_retry form0
       (snd (handleSaveLoan env_loan_fails form0 world0))))) =
     [\<lparr>students_name = ''Ana Silva'', students_class = ''9A'', students_id = ''S1''\<rparr>,
      \<lparr>students_name = ''Ana Silva'', students_class = ''9A'', students_id = ''S2''\<rparr>]"
  by code_simp

text \<open>
  C4, amended. A new loan is asked for (no loan is being edited) with a book of the
  catalogue and a name and a class that are not empty once trimmed. If a student of the
  snapshot in memory has that name and class up to letter case, the students table is left
  as it is, and when the write of the loan succeeds the new loan carries the name and class
  of the first such student, as that student has them. If no student of the snapshot in
  memory matches and the insert of the student succeeds, the students table gains exactly
  one row, with the trimmed name and class as typed, and when the write of the loan
  succeeds the new loan carries them.
\<close>

theorem create_loan_student:
  assumes "editingLoan (app w) = None"
    and "find (\<lambda>b. bId b = f_bookId form) (books (data (app w))) = Some book"
    and "trim env (f_studentName form) \<noteq> []" and "trim env (f_studentClass form) \<noteq> []"
  shows
   "(find (\<lambda>s. toLowerCase env (sName s) = toLowerCase env (trim env (f_studentName form)) \<and>
               toLowerCase env (sClass s) = toLowerCase env (trim env (f_studentClass form)))
       (students (data (app w))) = Some s \<longrightarrow>
       t_students (remote (snd (handleSaveLoan env form w))) = t_students (remote w) \<and>
       (\<not> fails env InsertLoan \<longrightarrow>
          fst (handleSaveLoan env form w) = Completed \<and>
          (\<exists>row. t_loans (remote (snd (handleSaveLoan env form w))) =
                   t_loans (remote w) @ [row] \<and>
             loans_student_name row = sName s \<and> loans_student_class row = sClass s))) \<and>
    (find (\<lambda>s. toLowerCase env (sName s) = toLowerCase env (trim env (f_studentName form)) \<and>
               toLowerCase env (sClass s) = toLowerCase env (trim env (f_studentClass form)))
       (students (data (app w))) = None \<and> \<not> fails env InsertStudent \<longrightarrow>
       t_students (remote (snd (handleSaveLoan env form w))) =
         t_students (remote w) @
           [\<lparr>students_name = trim env (f_studentName form),
             students_class = trim env (f_studentClass form),
             students_id = newStudentId env\<rparr>] \<and>
       (\<not> fails env InsertLoan \<longrightarrow>
          fst (handleSaveLoan env form w) = Completed \<and>
          (\<exists>row. t_loans (remote (snd (handleSaveLoan env form w))) =
                   t_loans (remote w) @ [row] \<and>
             loans_student_name row = trim env (f_studentName form) \<and>
             loans_student_class row = trim env (f_studentClass form))))"
proof -
  let ?n = "trim env (f_studentName form)" and ?c = "trim env (f_studentClass form)"
  let ?attempt = "handleSaveLoan_try env book ?n ?c w"
  have run: "handleSaveLoan env form w =
     (case ?attempt of (Inl e, w1) \<Rightarrow> (Caught, closeLoanForm (showToast LoanSaveError w1))
      | (Inr u, w1) \<Rightarrow> (Completed, closeLoanForm w1))"
    by (rule handleSaveLoan_valid [OF assms(2-4)])
  have st: "t_students (remote (snd (handleSaveLoan env form w))) =
      t_students (remote (snd ?attempt))"
    by (simp add: run split: prod.splits sum.splits)
  have completes: "fst (handleSaveLoan env form w) = Completed \<and>
       t_loans (remote (snd (handleSaveLoan env form w))) = ls"
    if "?attempt = (Inr (), w2)" "t_loans (remote w2) = ls" for w2 ls
    using that by (simp add: run)
  have found: "t_students (remote (snd (handleSaveLoan env form w))) = t_students (remote w) \<and>
       (\<not> fails env InsertLoan \<longrightarrow>
          fst (handleSaveLoan env form w) = Completed \<and>
          (\<exists>row. t_loans (remote (snd (handleSaveLoan env form w))) =
                   t_loans (remote w) @ [row] \<and>
             loans_student_name row = sName s \<and> loans_student_class row = sClass s))"
    if f: "find (\<lambda>s. toLowerCase env (sName s) = toLowerCase env ?n \<and>
                     toLowerCase env (sClass s) = toLowerCase env ?c)
       (students (data (app w))) = Some s"
  proof -
    note a = autoCreateStudent_found [OF f]
    have "t_students (remote (snd (handleSaveLoan env form w))) = t_students (remote w)"
      using try_students [OF a, of book] by (simp add: st)
    moreover have "fst (handleSaveLoan env form w) = Completed \<and>
          (\<exists>row. t_loans (remote (snd (handleSaveLoan env form w))) =
                   t_loans (remote w) @ [row] \<and>
             loans_student_name row = sName s \<and> loans_student_class row = sClass s)"
      if ok: "\<not> fails env InsertLoan"
      using try_create_row [OF a assms(1) ok, of book] completes by fastforce
    ultimately show ?thesis by blast
  qed
  have fresh: "t_students (remote (snd (handleSaveLoan env form w))) =
         t_students (remote w) @
           [\<lparr>students_name = ?n, students_class = ?c, students_id = newStudentId env\<rparr>] \<and>
       (\<not> fails env InsertLoan \<longrightarrow>
          fst (handleSaveLoan env form w) = Completed \<and>
          (\<exists>row. t_loans (remote (snd (handleSaveLoan env form w))) =
                   t_loans (remote w) @ [row] \<and>
             loans_student_name row = ?n \<and> loans_student_class row = ?c))"
    if f: "find (\<lambda>s. toLowerCase env (sName s) = toLowerCase env ?n \<and>
                     toLowerCase env (sClass s) = toLowerCase env ?c)
       (students (data (app w))) = None \<and> \<not> fails env InsertStudent"
  proof -
    let ?w1 = "showToast (StudentAutoRegistered ?n)
              (w\<lparr>remote := (remote w)\<lparr>t_students := t_students (remote w) @
                 [\<lparr>students_name = ?n, students_class = ?c,
                   students_id = newStudentId env\<rparr>]\<rparr>\<rparr>)"
    have a: "autoCreateStudent env ?n ?c w =
        (Inr \<lparr>sName = ?n, sClass = ?c, sId = newStudentId env\<rparr>, ?w1)"
      using f autoCreateStudent_new [of env ?n ?c w] by simp
    have "t_students (remote (snd (handleSaveLoan env form w))) =
         t_students (remote w) @
           [\<lparr>students_name = ?n, students_class = ?c, students_id = newStudentId env\<rparr>]"
      using try_students [OF a, of book] by (simp add: st)
    moreover have "fst (handleSaveLoan env form w) = Completed \<and>
          (\<exists>row. t_loans (remote (snd (handleSaveLoan env form w))) =
                   t_loans (remote w) @ [row] \<and>
             loans_student_name row = ?n \<and> loans_student_class row = ?c)"
      if ok: "\<not> fails env InsertLoan"
      using try_create_row [OF a assms(1) ok, of book] completes by fastforce
    ultimately show ?thesis by blast
  qed
  from found fresh show ?thesis by blast
qed

theorem create_loan_student_witness:
  "t_students (remote (snd (handleSaveLoan env1 form_upper world3))) =
     [ana_student_row, jose_student_row] \<and>
   (\<exists>row. t_loans (remote (snd (handleSaveLoan env1 form_upper world3))) = [ana_row, row] \<and>
      loans_student_name row = ''Ana Silva'' \<and> loans_student_class row = ''9A'') \<and>
   t_students (remote (snd (handleSaveLoan env1 form_jose world3))) =
     [ana_student_row, jose_student_row] \<and>
   (\<exists>row. t_loans (remote (snd (handleSaveLoan env1 form_jose world3))) = [ana_row, row] \<and>
      loans_student_name row = ''JOS'' @ [CHR 0xC9] \<and> loans_student_class row = ''7B'') \<and>
   t_students (remote (snd (handleSaveLoan env1 form_new world3))) =
     [ana_student_row, jose_student_row,
      \<lparr>students_name = ''Bia Souza'', students_class = ''9B'', students_id = ''S2''\<rparr>] \<and>
   (\<exists>row. t_loans (remote (snd (handleSaveLoan env1 form_new world3))) = [ana_row, row] \<and>
      loans_student_name row = ''Bia Souza'' \<and> loans_student_class row = ''9B'')"
proof -
  have h: "editingLoan (app world3) = None"
    "find (\<lambda>b. bId b = f_bookId form_upper) (books (data (app world3))) = Some dune"
    "find (\<lambda>b. bId b = f_bookId form_jose) (books (data (app world3))) = Some dune"
    "find (\<lambda>b. bId b = f_bookId form_new) (books (data (app world3))) = Some dune"
    "trim env1 (f_studentName form_upper) \<noteq> []" "trim env1 (f_studentClass form_upper) \<noteq> []"
    "trim env1 (f_studentName form_jose) \<noteq> []" "trim env1 (f_studentClass form_jose) \<noteq> []"
    "trim env1 (f_studentName form_new) \<noteq> []" "trim env1 (f_studentClass form_new) \<noteq> []"
    by code_simp+
  have m: "find (\<lambda>s. toLowerCase env1 (sName s) =
                      toLowerCase env1 (trim env1 (f_studentName form_upper)) \<and>
               toLowerCase env1 (sClass s) =
                      toLowerCase env1 (trim env1 (f_studentClass form_upper)))
       (students (data (app world3))) = Some ana_student"
    "find (\<lambda>s. toLowerCase env1 (sName s) =
                      toLowerCase env1 (trim env1 (f_studentName form_jose)) \<and>
               toLowerCase env1 (sClass s) =
                      toLowerCase env1 (trim env1 (f_studentClass form_jose)))
       (students (data (app world3))) = Some jose_student"
    "find (\<lambda>s. toLowerCase env1 (sName s) =
                      toLowerCase env1 (trim env1 (f_studentName form_new)) \<and>
               toLowerCase env1 (sClass s) =
                      toLowerCase env1 (trim env1 (f_studentClass form_new)))
       (students (data (app world3))) = None"
    by code_simp+
  have v: "\<not> fails env1 InsertLoan" "\<not> fails env1 InsertStudent" "newStudentId env1 = ''S2''"
    "t_students (remote world3) = [ana_student_row, jose_student_row]"
    "t_loans (remote world3) = [ana_row]"
    "sName ana_student = ''Ana Silva''" "sClass ana_student = ''9A''"
    "sName jose_student = ''JOS'' @ [CHR 0xC9]" "sClass jose_student = ''7B''"
    "trim env1 (f_studentName form_new) = ''Bia Souza''"
    "trim env1 (f_studentClass form_new) = ''9B''"
    by code_simp+
  show ?thesis
    using create_loan_student [OF h(1) h(2) h(5) h(6), where s = ana_student]
      create_loan_student [OF h(1) h(3) h(7) h(8), where s = jose_student]
      create_loan_student [OF h(1) h(4) h(9) h(10), where s = ana_student] m v
    by auto
qed

subsection \<open>The guard of the loan form\<close>

text \<open>
  C5, as the claim states it, has the operation fail with a validation error that is
  reported. The guard of \<open>handleSaveLoan\<close> is a bare \<open>return\<close>: with a book that is not in
  the catalogue, or a name of blanks, the run ends there, no toast is shown (none of the
  error type in particular) and the form stays open.
\<close>

theorem validation_is_silent:
  "fst (handleSaveLoan env0 form_unknown world0) = EarlyReturn \<and>
   fst (handleSaveLoan env0 form_blank world0) = EarlyReturn \<and>
   \<not> (\<exists>t \<in> set (toasts (app (snd (handleSaveLoan env0 form_unknown world0)))).
        toastType t = Failure) \<and>
   toasts (app (snd (handleSaveLoan env0 form_unknown world0))) = [] \<and>
   toasts (app (snd (handleSaveLoan env0 form_blank world0))) = [] \<and>
   showLoanForm (app (snd (handleSaveLoan env0 form_unknown world0))) = True"
  by code_simp

text \<open>
  C5, amended. \<open>handleSaveLoan\<close> returns at its guard if and only if the book id is not that
  of a book of the snapshot, or the student name or the class is empty once trimmed; it
  then leaves the application and the store exactly as they were: nothing is written and
  nothing is shown.
\<close>

theorem handleSaveLoan_guard:
  "(fst (handleSaveLoan env form w) = EarlyReturn \<longleftrightarrow>
      find (\<lambda>b. bId b = f_bookId form) (books (data (app w))) = None \<or>
      trim env (f_studentName form) = [] \<or> trim env (f_studentClass form) = []) \<and>
   (fst (handleSaveLoan env form w) = EarlyReturn \<longrightarrow> snd (handleSaveLoan env form w) = w)"
  by (auto simp: handleSaveLoan_def Let_def split: option.splits sum.splits prod.splits)

theorem handleSaveLoan_guard_witness:
  "fst (handleSaveLoan env0 form_blank world0) = EarlyReturn \<and>
   snd (handleSaveLoan env0 form_blank world0) = world0 \<and>
   trim env0 (f_studentName form_blank) = [] \<and>
   fst (handleSaveLoan env0 form_unknown world0) = EarlyReturn \<and>
   snd (handleSaveLoan env0 form_unknown world0) = world0 \<and>
   fst (handleSaveLoan env0 form0 world0) \<noteq> EarlyReturn"
proof -
  have "trim env0 (f_studentName form_blank) = []"
    "find (\<lambda>b. bId b = f_bookId form_unknown) (books (data (app world0))) = None"
    "find (\<lambda>b. bId b = f_bookId form0) (books (data (app world0))) \<noteq> None"
    "trim env0 (f_studentName form0) \<noteq> []" "trim env0 (f_studentClass form0) \<noteq> []"
    by code_simp+
  then show ?thesis
    using handleSaveLoan_guard [of env0 form_blank world0]
      handleSaveLoan_guard [of env0 form_unknown world0]
      handleSaveLoan_guard [of env0 form0 world0]
    by simp
qed

subsection \<open>A write that fails\<close>

text \<open>
  C6, as the claim states it, has no record of a failed create-loan remain. The new loan
  for Ana Silva is asked for while the write of the loan fails: the run ends in the
  \<open>catch\<close>, no loan is written, and the student inserted before it is in the store.
\<close>

theorem student_remains_after_failed_loan:
  "fst (handleSaveLoan env_loan_fails form0 world0) = Caught \<and>
   t_students (remote world0) = [] \<and>
   t_students (remote (snd (handleSaveLoan env_loan_fails form0 world0))) = [ana_student_row] \<and>
   t_loans (remote (snd (handleSaveLoan env_loan_fails form0 world0))) = []"
  by code_simp

text \<open>
  C6, amended. When the write of a user action fails, the action shows its error toast and
  leaves the store and the snapshot in memory as they were: so for \<open>handleSaveBook\<close> and
  \<open>handleSaveStudent\<close> (the insert, or the update when an entity is being edited), for
  \<open>handleReturnBook\<close> (the update of the loan), for \<open>executeDelete\<close> (the delete of the book,
  the student or the loan that the dialog holds), and for \<open>handleSaveLoan\<close> with a valid form
  when the insert of the student fails, or when the write of the loan (the insert, or the
  update when a loan is being edited) fails and a student of the snapshot matched, or the
  insert of the student failed as well. The one exception is \<open>handleSaveLoan\<close> when no
  student matched, the insert of the student succeeded and the write of the loan then
  failed: the run ends in the \<open>catch\<close>, the snapshot, the books and the loans are as they
  were, and the new student stays in the store, with both toasts shown.
\<close>

theorem persistence_failure:
  "(fails env (if editingBook (app w) = None then InsertBook else UpdateBook) \<longrightarrow>
      remote (handleSaveBook env bookData w) = remote w \<and>
      data (app (handleSaveBook env bookData w)) = data (app w) \<and>
      toasts (app (handleSaveBook env bookData w)) = toasts (app w) @ [BookSaveError]) \<and>
   (fails env (if editingStudent (app w) = None then InsertStudent else UpdateStudent) \<longrightarrow>
      remote (handleSaveStudent env studentData w) = remote w \<and>
      data (app (handleSaveStudent env studentData w)) = data (app w) \<and>
      toasts (app (handleSaveStudent env studentData w)) =
        toasts (app w) @ [StudentSaveError]) \<and>
   (fails env UpdateLoan \<longrightarrow>
      remote (handleReturnBook env loanId w) = remote w \<and>
      data (app (handleReturnBook env loanId w)) = data (app w) \<and>
      toasts (app (handleReturnBook env loanId w)) = toasts (app w) @ [ReturnError]) \<and>
   (confirmDelete (app w) = Some cd \<and> fails env (deleteRequest (cd_type cd)) \<longrightarrow>
      remote (executeDelete env w) = remote w \<and>
      data (app (executeDelete env w)) = data (app w) \<and>
      toasts (app (executeDelete env w)) = toasts (app w) @ [DeleteError]) \<and>
   (find (\<lambda>b. bId b = f_bookId form) (books (data (app w))) \<noteq> None \<and>
    trim env (f_studentName form) \<noteq> [] \<and> trim env (f_studentClass form) \<noteq> [] \<longrightarrow>
      (find (\<lambda>s. toLowerCase env (sName s) =
                    toLowerCase env (trim env (f_studentName form)) \<and>
                  toLowerCase env (sClass s) =
                    toLowerCase env (trim env (f_studentClass form)))
          (students (data (app w))) = None \<and> fails env InsertStudent \<longrightarrow>
         fst (handleSaveLoan env form w) = Caught \<and>
         remote (snd (handleSaveLoan env form w)) = remote w \<and>
         data (app (snd (handleSaveLoan env form w))) = data (app w) \<and>
         toasts (app (snd (handleSaveLoan env form w))) = toasts (app w) @ [LoanSaveError]) \<and>
      (fails env (if editingLoan (app w) = None then InsertLoan else UpdateLoan) \<longrightarrow>
         fst (handleSaveLoan env form w) = Caught \<and>
         data (app (snd (handleSaveLoan env form w))) = data (app w) \<and>
         t_books (remote (snd (handleSaveLoan env form w))) = t_books (remote w) \<and>
         t_loans (remote (snd (handleSaveLoan env form w))) = t_loans (remote w) \<and>
         (if find (\<lambda>s. toLowerCase env (sName s) =
                          toLowerCase env (trim env (f_studentName form)) \<and>
                        toLowerCase env (sClass s) =
                          toLowerCase env (trim env (f_studentClass form)))
               (students (data (app w))) = None \<and> \<not> fails env InsertStudent
          then t_students (remote (snd (handleSaveLoan env form w))) =
                 t_students (remote w) @
                   [\<lparr>students_name = trim env (f_studentName form),
                     students_class = trim env (f_studentClass form),
                     students_id = newStudentId env\<rparr>] \<and>
               toasts (app (snd (handleSaveLoan env form w))) =
                 toasts (app w) @
                   [StudentAutoRegistered (trim env (f_studentName form)), LoanSaveError]
          else remote (snd (handleSaveLoan env form w)) = remote w \<and>
               toasts (app (snd (handleSaveLoan env form w))) =
                 toasts (app w) @ [LoanSaveError])))"
proof (intro conjI impI)
  assume "fails env (if editingBook (app w) = None then InsertBook else UpdateBook)"
  note r = handleSaveBook_fails [OF this, of bookData]
  show "remote (handleSaveBook env bookData w) = remote w"
    "data (app (handleSaveBook env bookData w)) = data (app w)"
    "toasts (app (handleSaveBook env bookData w)) = toasts (app w) @ [BookSaveError]"
    by (simp_all add: r closeBookForm_def showToast_def)
next
  assume "fails env (if editingStudent (app w) = None then InsertStudent else UpdateStudent)"
  note r = handleSaveStudent_fails [OF this, of studentData]
  show "remote (handleSaveStudent env studentData w) = remote w"
    "data (app (handleSaveStudent env studentData w)) = data (app w)"
    "toasts (app (handleSaveStudent env studentData w)) = toasts (app w) @ [StudentSaveError]"
    by (simp_all add: r closeStudentForm_def showToast_def)
next
  assume "fails env UpdateLoan"
  note r = handleReturnBook_fails [OF this, of loanId w]
  show "remote (handleReturnBook env loanId w) = remote w"
    "data (app (handleReturnBook env loanId w)) = data (app w)"
    "toasts (app (handleReturnBook env loanId w)) = toasts (app w) @ [ReturnError]"
    by (simp_all add: r showToast_def)
next
  assume "confirmDelete (app w) = Some cd \<and> fails env (deleteRequest (cd_type cd))"
  then have r: "executeDelete env w =
     (showToast DeleteError w)\<lparr>app := (app (showToast DeleteError w))\<lparr>confirmDelete := None\<rparr>\<rparr>"
    by (simp add: executeDelete_fails)
  show "remote (executeDelete env w) = remote w"
    "data (app (executeDelete env w)) = data (app w)"
    "toasts (app (executeDelete env w)) = toasts (app w) @ [DeleteError]"
    by (simp_all add: r showToast_def)
next
  assume v: "find (\<lambda>b. bId b = f_bookId form) (books (data (app w))) \<noteq> None \<and>
    trim env (f_studentName form) \<noteq> [] \<and> trim env (f_studentClass form) \<noteq> []"
  then obtain book where b: "find (\<lambda>b. bId b = f_bookId form) (books (data (app w))) = Some book"
    by auto
  {
    assume "find (\<lambda>s. toLowerCase env (sName s) =
                    toLowerCase env (trim env (f_studentName form)) \<and>
                  toLowerCase env (sClass s) =
                    toLowerCase env (trim env (f_studentClass form)))
          (students (data (app w))) = None \<and> fails env InsertStudent"
    then have r: "handleSaveLoan env form w = (Caught, closeLoanForm (showToast LoanSaveError w))"
      using handleSaveLoan_student_write_fails [OF b] v by simp
    show "fst (handleSaveLoan env form w) = Caught"
      "remote (snd (handleSaveLoan env form w)) = remote w"
      "data (app (snd (handleSaveLoan env form w))) = data (app w)"
      "toasts (app (snd (handleSaveLoan env form w))) = toasts (app w) @ [LoanSaveError]"
      by (simp_all add: r showToast_def)
  }
  {
    assume "fails env (if editingLoan (app w) = None then InsertLoan else UpdateLoan)"
    then have r: "handleSaveLoan env form w =
     (Caught, closeLoanForm (showToast LoanSaveError
        (if find (\<lambda>s. toLowerCase env (sName s) =
                         toLowerCase env (trim env (f_studentName form)) \<and>
                       toLowerCase env (sClass s) =
                         toLowerCase env (trim env (f_studentClass form)))
              (students (data (app w))) = None \<and> \<not> fails env InsertStudent
         then showToast (StudentAutoRegistered (trim env (f_studentName form)))
                (w\<lparr>remote := (remote w)\<lparr>t_students := t_students (remote w) @
                   [\<lparr>students_name = trim env (f_studentName form),
                     students_class = trim env (f_studentClass form),
                     students_id = newStudentId env\<rparr>]\<rparr>\<rparr>)
         else w)))"
      using handleSaveLoan_loan_write_fails [OF b] v by simp
    show "fst (handleSaveLoan env form w) = Caught"
      "data (app (snd (handleSaveLoan env form w))) = data (app w)"
      "t_books (remote (snd (handleSaveLoan env form w))) = t_books (remote w)"
      "t_loans (remote (snd (handleSaveLoan env form w))) = t_loans (remote w)"
      by (simp_all add: r showToast_def)
    show "if find (\<lambda>s. toLowerCase env (sName s) =
                          toLowerCase env (trim env (f_studentName form)) \<and>
                        toLowerCase env (sClass s) =
                          toLowerCase env (trim env (f_studentClass form)))
               (students (data (app w))) = None \<and> \<not> fails env InsertStudent
          then t_students (remote (snd (handleSaveLoan env form w))) =
                 t_students (remote w) @
                   [\<lparr>students_name = trim env (f_studentName form),
                     students_class = trim env (f_studentClass form),
                     students_id = newStudentId env\<rparr>] \<and>
               toasts (app (snd (handleSaveLoan env form w))) =
                 toasts (app w) @
                   [StudentAutoRegistered (trim env (f_studentName form)), LoanSaveError]
          else remote (snd (handleSaveLoan env form w)) = remote w \<and>
               toasts (app (snd (handleSaveLoan env form w))) =
                 toasts (app w) @ [LoanSaveError]"
      by (simp add: r showToast_def)
  }
qed

theorem persistence_failure_witness:
  "remote (handleSaveBook env_all_fail emma world3) = remote world3 \<and>
   data (app (handleSaveBook env_all_fail emma world3)) = data (app world3) \<and>
   toasts (app (handleSaveBook env_all_fail emma world3)) = [BookSaveError] \<and>
   remote (handleSaveStudent env_all_fail bia world3) = remote world3 \<and>
   toasts (app (handleSaveStudent env_all_fail bia world3)) = [StudentSaveError] \<and>
   remote (handleReturnBook env_all_fail ''L1'' world3) = remote world3 \<and>
   toasts (app (handleReturnBook env_all_fail ''L1'' world3)) = [ReturnError] \<and>
   remote (executeDelete env_all_fail world_delete) = remote world_delete \<and>
   toasts (app (executeDelete env_all_fail world_delete)) = [DeleteError] \<and>
   fst (handleSaveLoan env_all_fail form_new world3) = Caught \<and>
   remote (snd (handleSaveLoan env_all_fail form_new world3)) = remote world3 \<and>
   toasts (app (snd (handleSaveLoan env_all_fail form_new world3))) = [LoanSaveError] \<and>
   fst (handleSaveLoan env_loan_fails form0 world0) = Caught \<and>
   data (app (snd (handleSaveLoan env_loan_fails form0 world0))) = data (app world0) \<and>
   t_loans (remote (snd (handleSaveLoan env_loan_fails form0 world0))) = [] \<and>
   t_students (remote (snd (handleSaveLoan env_loan_fails form0 world0))) =
     [\<lparr>students_name = ''Ana Silva'', students_class = ''9A'', students_id = ''S1''\<rparr>] \<and>
   toasts (app (snd (handleSaveLoan env_loan_fails form0 world0))) =
     [StudentAutoRegistered ''Ana Silva'', LoanSaveError] \<and>
   remote (snd (handleSaveLoan env_loan_fails form_upper world3)) = remote world3 \<and>
   toasts (app (snd (handleSaveLoan env_loan_fails form_upper world3))) = [LoanSaveError] \<and>
   fst (handleSaveLoan env_all_fail form0 world1) = Caught \<and>
   remote (snd (handleSaveLoan env_all_fail form0 world1)) = remote world1"
proof -
  have a: "fails env_all_fail (if editingBook (app world3) = None then InsertBook else UpdateBook)"
    "fails env_all_fail
       (if editingStudent (app world3) = None then InsertStudent else UpdateStudent)"
    "fails env_all_fail UpdateLoan"
    "confirmDelete (app world_delete) =
       Some \<lparr>cd_type = DeleteTypeBook, cd_id = ''B1'', cd_message = ''Dune''\<rparr>"
    "fails env_all_fail
       (deleteRequest (cd_type \<lparr>cd_type = DeleteTypeBook, cd_id = ''B1'', cd_message = ''Dune''\<rparr>))"
    "fails env_all_fail InsertStudent"
    "fails env_all_fail (if editingLoan (app world1) = None then InsertLoan else UpdateLoan)"
    "fails env_loan_fails (if editingLoan (app world0) = None then InsertLoan else UpdateLoan)"
    "fails env_loan_fails (if editingLoan (app world3) = None then InsertLoan else UpdateLoan)"
    "\<not> fails env_loan_fails InsertStudent"
    by code_simp+
  have b: "find (\<lambda>b. bId b = f_bookId form_new) (books (data (app world3))) \<noteq> None"
    "find (\<lambda>b. bId b = f_bookId form_upper) (books (data (app world3))) \<noteq> None"
    "find (\<lambda>b. bId b = f_bookId form0) (books (data (app world0))) \<noteq> None"
    "find (\<lambda>b. bId b = f_bookId form0) (books (data (app world1))) \<noteq> None"
    "trim env_all_fail (f_studentName form_new) \<noteq> []"
    "trim env_all_fail (f_studentClass form_new) \<noteq> []"
    "trim env_loan_fails (f_studentName form_upper) \<noteq> []"
    "trim env_loan_fails (f_studentClass form_upper) \<noteq> []"
    "trim env_loan_fails (f_studentName form0) = ''Ana Silva''"
    "trim env_loan_fails (f_studentClass form0) = ''9A''"
    "trim env_all_fail (f_studentName form0) \<noteq> []"
    "trim env_all_fail (f_studentClass form0) \<noteq> []"
    by code_simp+
  have m: "find (\<lambda>s. toLowerCase env_all_fail (sName s) =
                    toLowerCase env_all_fail (trim env_all_fail (f_studentName form_new)) \<and>
                  toLowerCase env_all_fail (sClass s) =
                    toLowerCase env_all_fail (trim env_all_fail (f_studentClass form_new)))
          (students (data (app world3))) = None"
    "find (\<lambda>s. toLowerCase env_loan_fails (sName s) =
                    toLowerCase env_loan_fails (trim env_loan_fails (f_studentName form0)) \<and>
                  toLowerCase env_loan_fails (sClass s) =
                    toLowerCase env_loan_fails (trim env_loan_fails (f_studentClass form0)))
          (students (data (app world0))) = None"
    "find (\<lambda>s. toLowerCase env_loan_fails (sName s) =
                    toLowerCase env_loan_fails (trim env_loan_fails (f_studentName form_upper)) \<and>
                  toLowerCase env_loan_fails (sClass s) =
                    toLowerCase env_loan_fails (trim env_loan_fails (f_studentClass form_upper)))
          (students (data (app world3))) \<noteq> None"
    "find (\<lambda>s. toLowerCase env_all_fail (sName s) =
                    toLowerCase env_all_fail (trim env_all_fail (f_studentName form0)) \<and>
                  toLowerCase env_all_fail (sClass s) =
                    toLowerCase env_all_fail (trim env_all_fail (f_studentClass form0)))
          (students (data (app world1))) \<noteq> None"
    by code_simp+
  have v: "toasts (app world3) = []" "toasts (app world0) = []" "toasts (app world1) = []"
    "toasts (app world_delete) = []" "t_loans (remote world0) = []"
    "t_students (remote world0) = []" "newStudentId env_loan_fails = ''S1''"
    by code_simp+
  have 1: "remote (handleSaveBook env_all_fail emma world3) = remote world3 \<and>
    data (app (handleSaveBook env_all_fail emma world3)) = data (app world3) \<and>
    toasts (app (handleSaveBook env_all_fail emma world3)) = [BookSaveError] \<and>
    remote (handleSaveStudent env_all_fail bia world3) = remote world3 \<and>
    toasts (app (handleSaveStudent env_all_fail bia world3)) = [StudentSaveError] \<and>
    remote (handleReturnBook env_all_fail ''L1'' world3) = remote world3 \<and>
    toasts (app (handleReturnBook env_all_fail ''L1'' world3)) = [ReturnError] \<and>
    fst (handleSaveLoan env_all_fail form_new world3) = Caught \<and>
    remote (snd (handleSaveLoan env_all_fail form_new world3)) = remote world3 \<and>
    toasts (app (snd (handleSaveLoan env_all_fail form_new world3))) = [LoanSaveError]"
    using persistence_failure [of env_all_fail world3 emma bia "''L1''" _ form_new] a b m v
    by simp
  have 2: "remote (executeDelete env_all_fail world_delete) = remote world_delete \<and>
    toasts (app (executeDelete env_all_fail world_delete)) = [DeleteError]"
    using persistence_failure [of env_all_fail world_delete emma bia "''L1''"
        "\<lparr>cd_type = DeleteTypeBook, cd_id = ''B1'', cd_message = ''Dune''\<rparr>" form_new] a v
    by simp
  have 3: "fst (handleSaveLoan env_loan_fails form0 world0) = Caught \<and>
    data (app (snd (handleSaveLoan env_loan_fails form0 world0))) = data (app world0) \<and>
    t_loans (remote (snd (handleSaveLoan env_loan_fails form0 world0))) = [] \<and>
    t_students (remote (snd (handleSaveLoan env_loan_fails form0 world0))) =
      [\<lparr>students_name = ''Ana Silva'', students_class = ''9A'', students_id = ''S1''\<rparr>] \<and>
    toasts (app (snd (handleSaveLoan env_loan_fails form0 world0))) =
      [StudentAutoRegistered ''Ana Silva'', LoanSaveError]"
    using persistence_failure [of env_loan_fails world0 emma bia "''L1''" _ form0] a b m v
    by simp
  have 4: "remote (snd (handleSaveLoan env_loan_fails form_upper world3)) = remote world3 \<and>
    toasts (app (snd (handleSaveLoan env_loan_fails form_upper world3))) = [LoanSaveError]"
    using persistence_failure [of env_loan_fails world3 emma bia "''L1''" _ form_upper] a b m v
    by simp
  have 5: "fst (handleSaveLoan env_all_fail form0 world1) = Caught \<and>
    remote (snd (handleSaveLoan env_all_fail form0 world1)) = remote world1"
    using persistence_failure [of env_all_fail world1 emma bia "''L1''" _ form0] a b m v
    by simp
  from 1 2 3 4 5 show ?thesis by simp
qed

subsection \<open>Loans that are due soon\<close>

text \<open>
  C7. The claim: the notifications are the loans without a return date that are due from
  the start of today to two days later; the comment in the code says "Due today or in the
  next 2 days". The code: \<open>differenceInDays\<close> truncates towards zero, so a due date less
  than a day before the start of today gives 0, which the test \<open>diff >= 0\<close> lets through.
  On 2024-06-10 at 15:30 the loan that was due on 2024-06-09 at 12:00, and whose badge is
  "Atrasado", is notified as due soon.
\<close>

theorem upcoming_includes_overdue:
  "startOfDay utc 1718033400000 = 1717977600000 \<and>
   dueDate due_yesterday < startOfDay utc 1718033400000 \<and>
   returnDate due_yesterday = None \<and>
   LoanStatusBadge utc 1718033400000 due_yesterday True = Atrasado (Some 1) \<and>
   map n_id (upcoming utc 1718033400000 [due_yesterday]) = [''L2'']"
  by code_simp

subsection \<open>Facts about JSON values\<close>

lemma stringify_elements:
  "\<forall>x \<in> set xs. stringify (of_json x) = Some x \<Longrightarrow>
     map ((\<lambda>x. case stringify x of None \<Rightarrow> JNull | Some j \<Rightarrow> j) \<circ> of_json) xs = xs"
  by (induction xs) simp_all

lemma stringify_properties:
  "\<forall>(k, v) \<in> set ps. stringify (of_json v) = Some v \<Longrightarrow>
     concat (map ((\<lambda>(k, v). case stringify v of None \<Rightarrow> [] | Some j \<Rightarrow> [(k, j)]) \<circ>
                  (\<lambda>(k, v). (k, of_json v))) ps) = ps"
  by (induction ps) auto

lemma stringify_of_json [simp]: "stringify (of_json j) = Some j"
proof (induction j rule: of_json.induct)
  case (5 xs)
  then show ?case by (simp add: stringify_elements)
next
  case (6 ps)
  then have "\<forall>(k, v) \<in> set ps. stringify (of_json v) = Some v" by auto
  then show ?case by (simp add: stringify_properties)
qed simp_all

lemma JSON_stringify_of_json [simp]: "JSON_stringify (of_json j) = Wellformed j"
  by (simp add: JSON_stringify_def)

lemma getProp_of_json:
  "getProp (of_json j) k = None \<longleftrightarrow> j = JNull"
  by (cases j) simp_all

lemma map_of_of_json:
  "map_of (map (\<lambda>(k, v). (k, of_json v)) ps) k = map_option of_json (map_of ps k)"
  by (induction ps) auto

lemma getProp_JObj:
  "getProp (of_json (JObj ps)) k =
     Some (case map_of ps k of None \<Rightarrow> VUndefined | Some j \<Rightarrow> of_json j)"
  by (simp add: map_of_of_json split: option.splits)

lemma truthy_of_json_JArr [simp]: "truthy (of_json (JArr xs))"
  by simp

text \<open>
  A value of JSON data is written in full, and the text parses to it.
\<close>

lemma parse_elements:
  "\<forall>x \<in> set xs. \<exists>j. stringify x = Some j \<and> of_json j = x \<Longrightarrow>
     map (of_json \<circ> (\<lambda>x. case stringify x of None \<Rightarrow> JNull | Some j \<Rightarrow> j)) xs = xs"
  by (induction xs) auto

lemma parse_properties:
  "\<forall>(k, v) \<in> set ps. \<exists>j. stringify v = Some j \<and> of_json j = v \<Longrightarrow>
     map (\<lambda>(k, v). (k, of_json v))
       (concat (map (\<lambda>(k, v). case stringify v of None \<Rightarrow> [] | Some j \<Rightarrow> [(k, j)]) ps)) = ps"
  by (induction ps) auto

lemma stringify_plain: "plain v \<Longrightarrow> \<exists>j. stringify v = Some j \<and> of_json j = v"
proof (induction v rule: stringify.induct)
  case (6 xs)
  then have "\<forall>x \<in> set xs. \<exists>j. stringify x = Some j \<and> of_json j = x"
    by (auto simp: list_all_iff)
  then show ?case by (simp add: parse_elements)
next
  case (7 ps)
  then have "\<forall>(k, v) \<in> set ps. \<exists>j. stringify v = Some j \<and> of_json j = v"
    by (fastforce simp: list_all_iff)
  then show ?case by (simp add: parse_properties)
qed simp_all

lemma JSON_parse_stringify: "plain v \<Longrightarrow> JSON_parse (JSON_stringify v) = Some v"
  using stringify_plain [of v] by (auto simp: JSON_stringify_def)

lemma plain_data_value: "plain (data_value toISOString d)"
  by (simp add: data_value_def book_value_def student_value_def loan_value_def nullable_def
      list_all_iff split: option.splits)

subsection \<open>Export, then import\<close>

text \<open>
  C8. The file that the export writes is read back by the import as the same snapshot,
  with no alert: for every snapshot that the application holds (every list of books, of
  students and of loans, as the service builds their objects), \<open>handleImport\<close> of App.tsx
  makes the snapshot in memory the exported one when the user confirms, and leaves it the
  exported one when the import follows the export at once. The same holds of every value
  of JSON data as snapshot. Through \<open>storageService\<close> (\<open>exportBackup\<close>, \<open>importBackup\<close>) the
  promise resolves to the exported snapshot, for every three collections of JSON data, and
  a file exported by App.tsx is read by \<open>importBackup\<close> as the same three collections.
\<close>

theorem export_import_roundtrip:
  "handleImport (Some (handleExport (data_value toISOString d))) confirmed v =
     (if confirmed then data_value toISOString d else v, None) \<and>
   handleImport (Some (handleExport (data_value toISOString d))) confirmed (data_value toISOString d) =
     (data_value toISOString d, None) \<and>
   (plain snapshot \<longrightarrow>
      handleImport (Some (handleExport snapshot)) confirmed v =
        (if confirmed then snapshot else v, None) \<and>
      handleImport (Some (handleExport snapshot)) confirmed snapshot = (snapshot, None)) \<and>
   (list_all plain bs \<and> list_all plain ls \<and> list_all plain ss \<longrightarrow>
      importBackup (exportBackup
          (VObj [(''books'', VArr bs), (''loans'', VArr ls), (''students'', VArr ss)])) =
        Inr (VObj [(''books'', VArr bs), (''loans'', VArr ls), (''students'', VArr ss)]) \<and>
      handleImport_local (Some (handleExport_local
          (VObj [(''books'', VArr bs), (''loans'', VArr ls), (''students'', VArr ss)])))
          confirmed v =
        (if confirmed
         then VObj [(''books'', VArr bs), (''loans'', VArr ls), (''students'', VArr ss)]
         else v, None) \<and>
      importBackup (handleExport
          (VObj [(''books'', VArr bs), (''students'', VArr ss), (''loans'', VArr ls)])) =
        Inr (VObj [(''books'', VArr bs), (''loans'', VArr ls), (''students'', VArr ss)]))"
proof -
  have app: "handleImport (Some (handleExport x)) c y = (if c then x else y, None)"
    if "plain x" for x c y
    using JSON_parse_stringify [OF that] by (simp add: handleImport_def handleExport_def)
  have storage: "importBackup (Readable (JSON_stringify x)) =
      Inr (VObj [(''books'', VArr bs), (''loans'', VArr ls), (''students'', VArr ss)])"
    if "plain x" "getProp x ''books'' = Some (VArr bs)" "getProp x ''loans'' = Some (VArr ls)"
      "getProp x ''students'' = Some (VArr ss)" for x
    using JSON_parse_stringify [OF that(1)] that(2-4)
    by (simp add: importBackup_def or_else_def)
  show ?thesis
  proof (intro conjI impI)
    show "handleImport (Some (handleExport (data_value toISOString d))) confirmed v =
        (if confirmed then data_value toISOString d else v, None)"
      "handleImport (Some (handleExport (data_value toISOString d))) confirmed (data_value toISOString d) =
        (data_value toISOString d, None)"
      using app [OF plain_data_value] by simp_all
  next
    assume "plain snapshot"
    then show "handleImport (Some (handleExport snapshot)) confirmed v =
        (if confirmed then snapshot else v, None)"
      "handleImport (Some (handleExport snapshot)) confirmed snapshot = (snapshot, None)"
      using app by simp_all
  next
    assume p: "list_all plain bs \<and> list_all plain ls \<and> list_all plain ss"
    let ?local = "VObj [(''books'', VArr bs), (''loans'', VArr ls), (''students'', VArr ss)]"
    let ?remote = "VObj [(''books'', VArr bs), (''students'', VArr ss), (''loans'', VArr ls)]"
    have l: "importBackup (Readable (JSON_stringify ?local)) = Inr ?local"
      by (rule storage) (use p in simp_all)
    have r: "importBackup (Readable (JSON_stringify ?remote)) = Inr ?local"
      by (rule storage) (use p in simp_all)
    show "importBackup (exportBackup ?local) = Inr ?local"
      using l by (simp add: exportBackup_def)
    show "handleImport_local (Some (handleExport_local ?local)) confirmed v =
        (if confirmed then ?local else v, None)"
      using l by (simp add: handleImport_local_def handleExport_local_def exportBackup_def)
    show "importBackup (handleExport ?remote) = Inr ?local"
      using r by (simp add: handleExport_def)
  qed
qed

theorem export_import_roundtrip_witness:
  "data_value toISOString_jan (data (app world2)) = snapshot1 \<and>
   handleImport (Some (handleExport (data_value toISOString_jan (data (app world2))))) True
       emptyData =
     (snapshot1, None) \<and>
   handleImport (Some (handleExport snapshot1)) True emptyData = (snapshot1, None) \<and>
   handleExport snapshot1 =
     Readable (Wellformed
       (JObj [(''books'',
            JArr [JObj [(''id'', JStr ''B1''), (''title'', JStr ''Dune''),
                        (''author'', JStr ''Frank Herbert''), (''year'', JNum 1965),
                        (''publisher'', JStr ''Chilton''), (''isbn'', JStr ''9780441013593''),
                        (''barcode'', JNull), (''editionYear'', JNum 1965),
                        (''location'', JStr ''A1''), (''collection'', JNull)]]),
           (''students'',
            JArr [JObj [(''id'', JStr ''S1''), (''name'', JStr ''Ana Silva''),
                        (''class'', JStr ''9A'')]]),
           (''loans'',
            JArr [JObj [(''id'', JStr ''L1''), (''studentName'', JStr ''Ana Silva''),
                        (''studentClass'', JStr ''9A''), (''bookId'', JStr ''B1''),
                        (''bookTitle'', JStr ''Dune''),
                        (''loanDate'', JStr ''2024-01-01T00:00:00.000Z''),
                        (''dueDate'', JStr ''2024-01-08T00:00:00.000Z''),
                        (''returnDate'', JStr ''2024-01-10T00:00:00.000Z'')]])])) \<and>
   importBackup (exportBackup
       (VObj [(''books'', VArr [VObj [(''id'', VStr ''B1'')]]), (''loans'', VArr []),
              (''students'', VArr [VObj [(''id'', VStr ''S1'')]])])) =
     Inr (VObj [(''books'', VArr [VObj [(''id'', VStr ''B1'')]]), (''loans'', VArr []),
              (''students'', VArr [VObj [(''id'', VStr ''S1'')]])]) \<and>
   importBackup (handleExport
       (VObj [(''books'', VArr [VObj [(''id'', VStr ''B1'')]]),
              (''students'', VArr [VObj [(''id'', VStr ''S1'')]]), (''loans'', VArr [])])) =
     Inr (VObj [(''books'', VArr [VObj [(''id'', VStr ''B1'')]]), (''loans'', VArr []),
              (''students'', VArr [VObj [(''id'', VStr ''S1'')]])])"
proof -
  have d: "data_value toISOString_jan (data (app world2)) = snapshot1"
    by (simp add: data_value_def book_value_def student_value_def loan_value_def nullable_def
        toISOString_jan_def world2_def app0_def dune_def ana_returned_def ana_def
        ana_student_def snapshot1_def)
  have p: "plain snapshot1" "list_all plain [VObj [(''id'', VStr ''B1'')]] \<and>
      list_all plain [] \<and> list_all plain [VObj [(''id'', VStr ''S1'')]]"
    by (simp_all add: snapshot1_def)
  have e: "handleExport snapshot1 =
     Readable (Wellformed
       (JObj [(''books'',
            JArr [JObj [(''id'', JStr ''B1''), (''title'', JStr ''Dune''),
                        (''author'', JStr ''Frank Herbert''), (''year'', JNum 1965),
                        (''publisher'', JStr ''Chilton''), (''isbn'', JStr ''9780441013593''),
                        (''barcode'', JNull), (''editionYear'', JNum 1965),
                        (''location'', JStr ''A1''), (''collection'', JNull)]]),
           (''students'',
            JArr [JObj [(''id'', JStr ''S1''), (''name'', JStr ''Ana Silva''),
                        (''class'', JStr ''9A'')]]),
           (''loans'',
            JArr [JObj [(''id'', JStr ''L1''), (''studentName'', JStr ''Ana Silva''),
                        (''studentClass'', JStr ''9A''), (''bookId'', JStr ''B1''),
                        (''bookTitle'', JStr ''Dune''),
                        (''loanDate'', JStr ''2024-01-01T00:00:00.000Z''),
                        (''dueDate'', JStr ''2024-01-08T00:00:00.000Z''),
                        (''returnDate'', JStr ''2024-01-10T00:00:00.000Z'')]])]))"
    by (simp add: handleExport_def JSON_stringify_def snapshot1_def)
  show ?thesis
    using export_import_roundtrip [of toISOString_jan "data (app world2)" True emptyData
        snapshot1 "[VObj [(''id'', VStr ''B1'')]]" "[]" "[VObj [(''id'', VStr ''S1'')]]"] p e
    by (simp add: d)
qed

subsection \<open>What an import accepts\<close>

text \<open>
  C9, as the claim states it, has an import succeed only on a document whose \<open>books\<close> and
  \<open>loans\<close> are arrays, and report an incomplete document. \<open>importBackup\<close> tests the two
  properties for truthiness only, and resolves on a number and a boolean; \<open>handleImport\<close>
  of App.tsx tests nothing, and installs the empty object.
\<close>

theorem import_accepts_what_is_truthy:
  "importBackup (Readable (Wellformed (JObj [(''books'', JNum 1), (''loans'', JBool True)]))) =
     Inr (VObj [(''books'', VNum 1), (''loans'', VBool True), (''students'', VArr [])]) \<and>
   handleImport (Some (Readable (Wellformed (JObj [])))) True emptyData = (VObj [], None)"
  by (simp add: importBackup_def handleImport_def or_else_def)

text \<open>
  C9, amended. \<open>importBackup\<close> resolves if and only if the file is read, its text parses to
  a value that is not null, and the \<open>books\<close> and \<open>loans\<close> properties of that value are
  truthy; the result has these two as they are and \<open>students\<close> as it is when truthy, else
  the empty array. So a document whose \<open>books\<close> and \<open>loans\<close> are arrays is accepted, with
  \<open>students\<close> empty when absent. When \<open>importBackup\<close> rejects, the handler built on it
  shows the error and keeps the snapshot. \<open>handleImport\<close> of App.tsx shows an error and
  keeps the snapshot when the file cannot be read or its text does not parse; any
  document that parses replaces the snapshot once the user confirms.
\<close>

theorem importBackup_accepts:
  "(importBackup f = Inr v \<longleftrightarrow>
      (\<exists>j b l s. f = Readable (Wellformed j) \<and>
         getProp (of_json j) ''books'' = Some b \<and> getProp (of_json j) ''loans'' = Some l \<and>
         getProp (of_json j) ''students'' = Some s \<and> truthy b \<and> truthy l \<and>
         v = VObj [(''books'', b), (''loans'', l),
                   (''students'', if truthy s then s else VArr [])])) \<and>
   (map_of ps ''books'' = Some (JArr bs) \<and> map_of ps ''loans'' = Some (JArr ls) \<longrightarrow>
      importBackup (Readable (Wellformed (JObj ps))) =
        Inr (VObj [(''books'', VArr (map of_json bs)), (''loans'', VArr (map of_json ls)),
                   (''students'', case map_of ps ''students'' of
                                     None \<Rightarrow> VArr []
                                   | Some j \<Rightarrow> if truthy (of_json j) then of_json j else VArr [])])) \<and>
   (importBackup f = Inl e \<longrightarrow> handleImport_local (Some f) confirmed d = (d, Some (BackupAlert e))) \<and>
   (JSON_parse text = None \<longrightarrow>
      handleImport (Some (Readable text)) confirmed d = (d, Some SyntaxAlert)) \<and>
   handleImport (Some Unreadable) confirmed d = (d, Some FileAlert) \<and>
   handleImport (Some (Readable (Wellformed j'))) confirmed d =
     (if confirmed then of_json j' else d, None)"
proof (intro conjI impI)
  show "importBackup f = Inr v \<longleftrightarrow>
      (\<exists>j b l s. f = Readable (Wellformed j) \<and>
         getProp (of_json j) ''books'' = Some b \<and> getProp (of_json j) ''loans'' = Some l \<and>
         getProp (of_json j) ''students'' = Some s \<and> truthy b \<and> truthy l \<and>
         v = VObj [(''books'', b), (''loans'', l),
                   (''students'', if truthy s then s else VArr [])])"
  proof (cases f)
    case Unreadable
    then show ?thesis by (simp add: importBackup_def)
  next
    case (Readable tx)
    then show ?thesis
      by (cases tx)
        (auto simp: importBackup_def or_else_def split: option.splits if_splits)
  qed
next
  assume "map_of ps ''books'' = Some (JArr bs) \<and> map_of ps ''loans'' = Some (JArr ls)"
  then show "importBackup (Readable (Wellformed (JObj ps))) =
        Inr (VObj [(''books'', VArr (map of_json bs)), (''loans'', VArr (map of_json ls)),
                   (''students'', case map_of ps ''students'' of
                                     None \<Rightarrow> VArr []
                                   | Some j \<Rightarrow> if truthy (of_json j) then of_json j else VArr [])])"
    by (simp add: importBackup_def or_else_def map_of_of_json split: option.splits)
next
  assume "importBackup f = Inl e"
  then show "handleImport_local (Some f) confirmed d = (d, Some (BackupAlert e))"
    by (simp add: handleImport_local_def)
next
  assume "JSON_parse text = None"
  then show "handleImport (Some (Readable text)) confirmed d = (d, Some SyntaxAlert)"
    by (simp add: handleImport_def)
next
  show "handleImport (Some Unreadable) confirmed d = (d, Some FileAlert)"
    by (simp add: handleImport_def)
  show "handleImport (Some (Readable (Wellformed j'))) confirmed d =
     (if confirmed then of_json j' else d, None)"
    by (simp add: handleImport_def)
qed

theorem importBackup_accepts_witness:
  "importBackup (Readable (Wellformed (JObj [(''books'', JArr []), (''loans'', JArr [])]))) =
     Inr (VObj [(''books'', VArr []), (''loans'', VArr []), (''students'', VArr [])]) \<and>
   importBackup (Readable (Wellformed (JObj [(''books'', JArr [])]))) = Inl InvalidFormat \<and>
   handleImport_local (Some (Readable (Wellformed (JObj [(''books'', JArr [])])))) True emptyData =
     (emptyData, Some (BackupAlert InvalidFormat)) \<and>
   handleImport (Some (Readable Malformed)) True emptyData = (emptyData, Some SyntaxAlert)"
proof -
  have a: "map_of [(''books'', JArr []), (''loans'', JArr [])] ''books'' = Some (JArr []) \<and>
      map_of [(''books'', JArr []), (''loans'', JArr [])] ''loans'' = Some (JArr [])"
    "map_of [(''books'', JArr []), (''loans'', JArr [])] ''students'' = None"
    by simp_all
  have b: "importBackup (Readable (Wellformed (JObj [(''books'', JArr [])]))) = Inl InvalidFormat"
    by (simp add: importBackup_def)
  have c: "JSON_parse Malformed = None" by simp
  show ?thesis
    using importBackup_accepts [of "Readable (Wellformed (JObj [(''books'', JArr [])]))"
        _ "[(''books'', JArr []), (''loans'', JArr [])]" "[]" "[]" InvalidFormat True emptyData Malformed]
      a b c
    by simp
qed

subsection \<open>Loading from local storage\<close>

text \<open>
  C10, as the claim states it, has \<open>loadData\<close> return a well-formed snapshot for every
  stored value. \<open>loadData\<close> puts the empty array in place of a collection that is falsy and
  keeps any other: a stored object whose \<open>books\<close> is the string "abc" is loaded with that
  string as its books, and one whose \<open>loans\<close> is the number 7 and whose \<open>students\<close> is an
  object is loaded with them.
\<close>

theorem loadData_keeps_what_is_truthy:
  "loadData (Some (Wellformed (JObj [(''books'', JStr ''abc'')]))) =
     VObj [(''books'', VStr ''abc''), (''loans'', VArr []), (''students'', VArr [])] \<and>
   loadData (Some (Wellformed (JObj [(''books'', JArr []), (''loans'', JNum 7),
       (''students'', JObj [])]))) =
     VObj [(''books'', VArr []), (''loans'', VNum 7), (''students'', VObj [])]"
  by (simp add: loadData_def loadData_try_def or_else_def)

text \<open>
  C10, amended. \<open>loadData\<close> always returns an object with the three collection properties,
  and every throw of its \<open>try\<close> block ends in the \<open>catch\<close>. It returns the empty snapshot when
  the key is absent, when the stored text is empty or does not parse, and when the stored
  value is null or not an object. For a stored object, each collection of the result is
  the stored one when that is truthy, and the empty array when it is missing or falsy; so
  the result has three arrays if and only if each stored collection is missing, falsy or
  an array.
\<close>

theorem loadData_total:
  "loadData None = emptyData \<and>
   loadData (Some EmptyText) = emptyData \<and>
   loadData (Some Malformed) = emptyData \<and>
   loadData (Some (Wellformed JNull)) = emptyData \<and>
   (\<exists>b l s. loadData saved = VObj [(''books'', b), (''loans'', l), (''students'', s)]) \<and>
   ((\<forall>ps. j \<noteq> JObj ps) \<longrightarrow> loadData (Some (Wellformed j)) = emptyData) \<and>
   loadData (Some (Wellformed (JObj ps))) =
     VObj [(''books'', case map_of ps ''books'' of None \<Rightarrow> VArr []
                       | Some c \<Rightarrow> if truthy (of_json c) then of_json c else VArr []),
           (''loans'', case map_of ps ''loans'' of None \<Rightarrow> VArr []
                       | Some c \<Rightarrow> if truthy (of_json c) then of_json c else VArr []),
           (''students'', case map_of ps ''students'' of None \<Rightarrow> VArr []
                       | Some c \<Rightarrow> if truthy (of_json c) then of_json c else VArr [])] \<and>
   ((\<exists>b l s. loadData (Some (Wellformed (JObj ps))) =
              VObj [(''books'', VArr b), (''loans'', VArr l), (''students'', VArr s)]) \<longleftrightarrow>
    (\<forall>k \<in> {''books'', ''loans'', ''students''}.
        case map_of ps k of None \<Rightarrow> True
        | Some c \<Rightarrow> \<not> truthy (of_json c) \<or> (\<exists>xs. c = JArr xs)))"
proof -
  have l: "loadData (Some (Wellformed (JObj ps))) =
     VObj [(''books'', case map_of ps ''books'' of None \<Rightarrow> VArr []
                       | Some c \<Rightarrow> if truthy (of_json c) then of_json c else VArr []),
           (''loans'', case map_of ps ''loans'' of None \<Rightarrow> VArr []
                       | Some c \<Rightarrow> if truthy (of_json c) then of_json c else VArr []),
           (''students'', case map_of ps ''students'' of None \<Rightarrow> VArr []
                       | Some c \<Rightarrow> if truthy (of_json c) then of_json c else VArr [])]"
    by (simp add: loadData_def loadData_try_def or_else_def map_of_of_json
        split: option.splits)
  have arr: "(\<exists>xs. (case map_of ps k of None \<Rightarrow> VArr []
                | Some c \<Rightarrow> if truthy (of_json c) then of_json c else VArr []) = VArr xs) \<longleftrightarrow>
      (case map_of ps k of None \<Rightarrow> True
       | Some c \<Rightarrow> \<not> truthy (of_json c) \<or> (\<exists>xs. c = JArr xs))" for k
  proof (cases "map_of ps k")
    case None
    then show ?thesis by simp
  next
    case (Some c)
    then show ?thesis by (cases c) auto
  qed
  show ?thesis
  proof (intro conjI impI)
    show "loadData None = emptyData" "loadData (Some EmptyText) = emptyData"
      "loadData (Some Malformed) = emptyData" "loadData (Some (Wellformed JNull)) = emptyData"
      by (simp_all add: loadData_def loadData_try_def)
    show "\<exists>b l s. loadData saved = VObj [(''books'', b), (''loans'', l), (''students'', s)]"
      by (auto simp: loadData_def loadData_try_def emptyData_def split: option.splits)
    show "loadData (Some (Wellformed (JObj ps))) =
     VObj [(''books'', case map_of ps ''books'' of None \<Rightarrow> VArr []
                       | Some c \<Rightarrow> if truthy (of_json c) then of_json c else VArr []),
           (''loans'', case map_of ps ''loans'' of None \<Rightarrow> VArr []
                       | Some c \<Rightarrow> if truthy (of_json c) then of_json c else VArr []),
           (''students'', case map_of ps ''students'' of None \<Rightarrow> VArr []
                       | Some c \<Rightarrow> if truthy (of_json c) then of_json c else VArr [])]"
      by (rule l)
    show "(\<exists>b l s. loadData (Some (Wellformed (JObj ps))) =
              VObj [(''books'', VArr b), (''loans'', VArr l), (''students'', VArr s)]) \<longleftrightarrow>
      (\<forall>k \<in> {''books'', ''loans'', ''students''}.
        case map_of ps k of None \<Rightarrow> True
        | Some c \<Rightarrow> \<not> truthy (of_json c) \<or> (\<exists>xs. c = JArr xs))"
      using arr [of "''books''"] arr [of "''loans''"] arr [of "''students''"]
      unfolding l by simp
  next
    assume "\<forall>ps. j \<noteq> JObj ps"
    then show "loadData (Some (Wellformed j)) = emptyData"
      by (cases j) (simp_all add: loadData_def loadData_try_def emptyData_def or_else_def)
  qed
qed

theorem loadData_total_witness:
  "loadData (Some (Wellformed (JObj [(''books'', JArr [JObj [(''id'', JStr ''B1'')]]),
       (''loans'', JNull)]))) =
     VObj [(''books'', VArr [VObj [(''id'', VStr ''B1'')]]), (''loans'', VArr []),
           (''students'', VArr [])] \<and>
   loadData (Some (Wellformed (JNum 5))) = emptyData \<and>
   loadData (Some (Wellformed (JArr [JNum 5]))) = emptyData"
proof -
  have b: "\<forall>ps. JNum 5 \<noteq> JObj ps" "\<forall>ps. JArr [JNum 5] \<noteq> JObj ps" by simp_all
  show ?thesis
    using loadData_total [of _ "JNum 5"
        "[(''books'', JArr [JObj [(''id'', JStr ''B1'')]]), (''loans'', JNull)]"]
      loadData_total [of _ "JArr [JNum 5]" "[]"] b
    by simp
qed

end
